theory Spec2Isabelle
  imports Main "HOL-Library.Multiset"
begin

section \<open>JavaScript values\<close>

text \<open>
  The values the handlers and the client module pass around: what \<open>JSON.parse\<close> returns,
  what a property read yields (\<open>Undefined\<close> for a property that is not there) and
  what is handed to the storage as a statement parameter. Numbers are kept to the
  integers; an object is the list of its properties.
\<close>

datatype js =
    Undefined
  | Null
  | Bool bool
  | Num int
  | Str string
  | Arr "js list"
  | Obj "(string \<times> js) list"

datatype exn = SyntaxError | TypeError | StorageError

text \<open>Truthiness, as \<open>||\<close> and \<open>!\<close> test it.\<close>

fun truthy :: "js \<Rightarrow> bool" where
  "truthy Undefined = False"
| "truthy Null = False"
| "truthy (Bool b) = b"
| "truthy (Num n) = (n \<noteq> 0)"
| "truthy (Str s) = (s \<noteq> [])"
| "truthy (Arr xs) = True"
| "truthy (Obj kvs) = True"

text \<open>
  \<open>v.k\<close> for the field names the program reads (none of them is a property of a
  string, number, boolean or array): the stored value for an object that has the
  property, \<open>undefined\<close> otherwise. Reading a property of \<open>null\<close> or \<open>undefined\<close>
  raises a \<open>TypeError\<close>: the handlers test \<open>nullish\<close> before they read.
\<close>

fun js_get :: "js \<Rightarrow> string \<Rightarrow> js" where
  "js_get (Obj kvs) k = (case map_of kvs k of Some v \<Rightarrow> v | None \<Rightarrow> Undefined)"
| "js_get v k = Undefined"

fun nullish :: "js \<Rightarrow> bool" where
  "nullish Undefined = True"
| "nullish Null = True"
| "nullish v = False"

text \<open>
  \<open>event.body\<close> as \<open>JSON.parse\<close> sees it: a text it rejects with a \<open>SyntaxError\<close>,
  or a text it reads as a value (the \<open>null\<close> body of a request without one reads as
  \<open>Null\<close>).
\<close>

datatype json_text = Malformed | Json js

fun JSON_parse :: "json_text \<Rightarrow> exn + js" where
  "JSON_parse Malformed = Inl SyntaxError"
| "JSON_parse (Json v) = Inr v"

section \<open>Requests and responses\<close>

record event =
  httpMethod :: string
  path :: string
  body :: json_text

text \<open>
  A response body is the empty string, or the \<open>JSON.stringify\<close> of an error object,
  of a message object, of one row, or of a list of rows; \<open>No_body\<close> is the
  \<open>undefined\<close> that \<open>JSON.stringify(rows[0])\<close> gives on an empty result.
\<close>

record row =
  row_id :: string
  cols :: "(string \<times> js) list"
  created_at :: int
  updated_at :: int

datatype body =
    Empty_body
  | Error_body string
  | Message_body string
  | Row_body row
  | Rows_body "row list"
  | No_body

record response =
  statusCode :: nat
  headers :: "(string \<times> string) list"
  payload :: body

definition cors_headers :: "(string \<times> string) list" where
  "cors_headers =
     [(''Access-Control-Allow-Origin'', ''*''),
      (''Access-Control-Allow-Headers'', ''Content-Type''),
      (''Access-Control-Allow-Methods'', ''GET, POST, PUT, DELETE, OPTIONS''),
      (''Content-Type'', ''application/json'')]"

definition config_headers :: "(string \<times> string) list" where
  "config_headers =
     [(''Access-Control-Allow-Origin'', ''*''),
      (''Content-Type'', ''application/json'')]"

text \<open>\<open>s.split(c)\<close>: never the empty list; the empty string splits into one empty part.\<close>

fun split_str :: "char \<Rightarrow> string \<Rightarrow> string list" where
  "split_str c [] = [[]]"
| "split_str c (x # xs) =
     (if x = c then [] # split_str c xs
      else (case split_str c xs of
              p # ps \<Rightarrow> (x # p) # ps
            | [] \<Rightarrow> [[x]]))"

text \<open>\<open>pathParts[pathParts.length - 1]\<close>, \<open>undefined\<close> on an empty array.\<close>

definition part_at_end :: "string list \<Rightarrow> js" where
  "part_at_end pathParts = (if pathParts = [] then Undefined else Str (last pathParts))"

text \<open>
  The id of a request: the last part of the path unless it is the collection name, and
  \<open>null\<close> then.
\<close>

definition path_id :: "string \<Rightarrow> string \<Rightarrow> js" where
  "path_id name p =
     (let pathParts = split_str CHR ''/'' p
      in if part_at_end pathParts \<noteq> Str name then part_at_end pathParts else Null)"

section \<open>Storage\<close>

datatype table = Tenders | Tasks

text \<open>
  The statements the handlers hand to \<open>pool.query\<close>, each with its parameters:
  \<open>SELECT * FROM t ORDER BY created_at DESC\<close>,
  \<open>INSERT INTO t (c1, c2, c3, c4) VALUES ($1, $2, $3, $4) RETURNING *\<close>,
  \<open>UPDATE t SET c1 = $1, c2 = $2, c3 = $3, c4 = $4, updated_at = CURRENT_TIMESTAMP
  WHERE id = $5 RETURNING *\<close> and \<open>DELETE FROM t WHERE id = $1 RETURNING *\<close>.
\<close>

datatype stmt =
    Select_all table
  | Insert_into table "js list"
  | Update_where table "js list" js
  | Delete_where table js

definition columns :: "table \<Rightarrow> string list" where
  "columns t =
     (case t of
        Tenders \<Rightarrow> [''tender_number'', ''description'', ''closing_date'', ''site_visits'']
      | Tasks \<Rightarrow> [''description'', ''assigned_to'', ''due_date'', ''status''])"

text \<open>
  The process a handler runs in: the environment's connection string, the module
  variable \<open>pool\<close> of \<open>tenders.js\<close> (set or not), whether \<open>new Pool\<close> raises there, the
  two tables, the id sequence, the server clock, the statements the storage refuses
  (a lost connection, a violated constraint: \<open>pool.query\<close> raises), and the log of the
  statements handed to \<open>pool.query\<close>.
\<close>

record world =
  DATABASE_URL :: "string option"
  pool :: bool
  Pool_throws :: bool
  tables :: "table \<Rightarrow> row list"
  next_id :: nat
  clock :: int
  rejects :: "stmt \<Rightarrow> bool"
  queries :: "stmt list"

text \<open>The decimal text of a sequence number.\<close>

fun digits :: "nat \<Rightarrow> nat \<Rightarrow> string" where
  "digits 0 n = []"
| "digits (Suc fuel) n =
     (if n < 10 then [char_of (48 + n)]
      else digits fuel (n div 10) @ [char_of (48 + n mod 10)])"

definition id_text :: "nat \<Rightarrow> string" where
  "id_text n = digits (Suc n) n"

text \<open>A parameter as the driver sends it: \<open>undefined\<close> goes out as \<open>NULL\<close>.\<close>

fun sql_param :: "js \<Rightarrow> js" where
  "sql_param Undefined = Null"
| "sql_param v = v"

text \<open>
  Modelled from the spec: the tables and what the four statements do to them (the
  schema and the database are not part of the sources). A row has a server-generated
  id, the four client-writable columns of its table, and \<open>created_at\<close> and
  \<open>updated_at\<close>, both set to the server time by the insert; an update overwrites the
  four columns of the rows with the given id and refreshes \<open>updated_at\<close>; a delete
  removes those rows; a row has the given id when the parameter is the text of its id; \<open>RETURNING *\<close> gives the rows written or removed; the list is
  ordered by \<open>created_at\<close>, newest first. Every statement handed over is logged; one
  the storage refuses raises and leaves the tables as they were.
\<close>

definition pool_query :: "world \<Rightarrow> stmt \<Rightarrow> (exn + row list) \<times> world" where
  "pool_query w q =
     (let w1 = w\<lparr>queries := queries w @ [q]\<rparr>
      in if rejects w q then (Inl StorageError, w1)
         else (case q of
           Select_all t \<Rightarrow>
             (Inr (sort_key (\<lambda>r. - created_at r) (tables w t)), w1)
         | Insert_into t ps \<Rightarrow>
             (let r = \<lparr>row_id = id_text (next_id w),
                       cols = zip (columns t) (map sql_param ps),
                       created_at = clock w, updated_at = clock w\<rparr>
              in (Inr [r],
                  w1\<lparr>tables := (tables w)(t := tables w t @ [r]),
                     next_id := Suc (next_id w)\<rparr>))
         | Update_where t ps i \<Rightarrow>
             (let rs = map (\<lambda>r. if Str (row_id r) = i
                                 then r\<lparr>cols := zip (columns t) (map sql_param ps),
                                        updated_at := clock w\<rparr>
                                 else r) (tables w t)
              in (Inr (filter (\<lambda>r. Str (row_id r) = i) rs),
                  w1\<lparr>tables := (tables w)(t := rs)\<rparr>))
         | Delete_where t i \<Rightarrow>
             (Inr (filter (\<lambda>r. Str (row_id r) = i) (tables w t)),
              w1\<lparr>tables := (tables w)(t := filter (\<lambda>r. Str (row_id r) \<noteq> i) (tables w t))\<rparr>)))"

section \<open>The tasks handler\<close>

text \<open>
  \<open>netlify/functions/tasks.js\<close>. The pool is made when the module is loaded, whatever
  the environment holds: the handler never reads \<open>DATABASE_URL\<close>. \<open>tasks_try\<close> is the
  body of the \<open>try\<close> block, \<open>Inl\<close> where it raises; \<open>tasks_handler\<close> is the handler,
  whose \<open>catch\<close> turns every raise into the same response. The \<open>body\<close> field of a
  response is \<open>payload\<close> here.
\<close>

definition tasks_try :: "world \<Rightarrow> event \<Rightarrow> (exn + response) \<times> world" where
  "tasks_try w ev =
     (let i = path_id ''tasks'' (path ev)
      in if httpMethod ev = ''GET'' then
           (case pool_query w (Select_all Tasks) of
              (Inl e, w') \<Rightarrow> (Inl e, w')
            | (Inr rows, w') \<Rightarrow>
                (Inr \<lparr>statusCode = 200, headers = cors_headers, payload = Rows_body rows\<rparr>, w'))
         else if httpMethod ev = ''POST'' then
           (case JSON_parse (body ev) of
              Inl e \<Rightarrow> (Inl e, w)
            | Inr v \<Rightarrow>
                (if nullish v then (Inl TypeError, w)
                 else
                   (let description = js_get v ''description'';
                        assigned_to = js_get v ''assigned_to'';
                        due_date = js_get v ''due_date'';
                        status = js_get v ''status''
                    in case pool_query w
                              (Insert_into Tasks
                                 [description, assigned_to, due_date,
                                  if truthy status then status else Str ''PENDING'']) of
                         (Inl e, w') \<Rightarrow> (Inl e, w')
                       | (Inr rows, w') \<Rightarrow>
                           (Inr \<lparr>statusCode = 201, headers = cors_headers,
                                 payload = (case rows of [] \<Rightarrow> No_body | r # _ \<Rightarrow> Row_body r)\<rparr>,
                            w'))))
         else if httpMethod ev = ''PUT'' then
           (if \<not> truthy i then
              (Inr \<lparr>statusCode = 400, headers = cors_headers,
                    payload = Error_body ''ID is required for update''\<rparr>, w)
            else
              (case JSON_parse (body ev) of
                 Inl e \<Rightarrow> (Inl e, w)
               | Inr updateData \<Rightarrow>
                   (if nullish updateData then (Inl TypeError, w)
                    else
                      (case pool_query w
                              (Update_where Tasks
                                 [js_get updateData ''description'',
                                  js_get updateData ''assigned_to'',
                                  js_get updateData ''due_date'',
                                  js_get updateData ''status''] i) of
                         (Inl e, w') \<Rightarrow> (Inl e, w')
                       | (Inr rows, w') \<Rightarrow>
                           (case rows of
                              [] \<Rightarrow>
                                (Inr \<lparr>statusCode = 404, headers = cors_headers,
                                      payload = Error_body ''Task not found''\<rparr>, w')
                            | r # _ \<Rightarrow>
                                (Inr \<lparr>statusCode = 200, headers = cors_headers,
                                      payload = Row_body r\<rparr>, w'))))))
         else if httpMethod ev = ''DELETE'' then
           (if \<not> truthy i then
              (Inr \<lparr>statusCode = 400, headers = cors_headers,
                    payload = Error_body ''ID is required for delete''\<rparr>, w)
            else
              (case pool_query w (Delete_where Tasks i) of
                 (Inl e, w') \<Rightarrow> (Inl e, w')
               | (Inr rows, w') \<Rightarrow>
                   (if length rows = 0 then
                      (Inr \<lparr>statusCode = 404, headers = cors_headers,
                            payload = Error_body ''Task not found''\<rparr>, w')
                    else
                      (Inr \<lparr>statusCode = 200, headers = cors_headers,
                            payload = Message_body ''Task deleted successfully''\<rparr>, w'))))
         else
           (Inr \<lparr>statusCode = 405, headers = cors_headers,
                 payload = Error_body ''Method not allowed''\<rparr>, w))"

definition tasks_handler :: "world \<Rightarrow> event \<Rightarrow> response \<times> world" where
  "tasks_handler w ev =
     (if httpMethod ev = ''OPTIONS'' then
        (\<lparr>statusCode = 200, headers = cors_headers, payload = Empty_body\<rparr>, w)
      else
        (case tasks_try w ev of
           (Inr r, w') \<Rightarrow> (r, w')
         | (Inl e, w') \<Rightarrow>
             (\<lparr>statusCode = 500, headers = cors_headers,
               payload = Error_body ''Internal server error''\<rparr>, w')))"

section \<open>The tenders handler\<close>

text \<open>
  \<open>netlify/functions/tenders.js\<close>. The handler begins by making the pool when the
  module variable is not set yet: it answers at once when the environment has no
  connection string (\<open>!process.env.DATABASE_URL\<close>: absent or empty) or when
  \<open>new Pool\<close> raises. The preflight test and the \<open>try\<close> block come after that.
\<close>

definition url_missing :: "world \<Rightarrow> bool" where
  "url_missing w = (case DATABASE_URL w of None \<Rightarrow> True | Some s \<Rightarrow> s = [])"

definition tenders_try :: "world \<Rightarrow> event \<Rightarrow> (exn + response) \<times> world" where
  "tenders_try w ev =
     (let i = path_id ''tenders'' (path ev)
      in if httpMethod ev = ''GET'' then
           (case pool_query w (Select_all Tenders) of
              (Inl e, w') \<Rightarrow> (Inl e, w')
            | (Inr rows, w') \<Rightarrow>
                (Inr \<lparr>statusCode = 200, headers = cors_headers, payload = Rows_body rows\<rparr>, w'))
         else if httpMethod ev = ''POST'' then
           (case JSON_parse (body ev) of
              Inl e \<Rightarrow> (Inl e, w)
            | Inr v \<Rightarrow>
                (if nullish v then (Inl TypeError, w)
                 else
                   (let tender_number = js_get v ''tender_number'';
                        description = js_get v ''description'';
                        closing_date = js_get v ''closing_date'';
                        site_visits = js_get v ''site_visits''
                    in case pool_query w
                              (Insert_into Tenders
                                 [tender_number, description, closing_date, site_visits]) of
                         (Inl e, w') \<Rightarrow> (Inl e, w')
                       | (Inr rows, w') \<Rightarrow>
                           (Inr \<lparr>statusCode = 201, headers = cors_headers,
                                 payload = (case rows of [] \<Rightarrow> No_body | r # _ \<Rightarrow> Row_body r)\<rparr>,
                            w'))))
         else if httpMethod ev = ''PUT'' then
           (if \<not> truthy i then
              (Inr \<lparr>statusCode = 400, headers = cors_headers,
                    payload = Error_body ''ID is required for update''\<rparr>, w)
            else
              (case JSON_parse (body ev) of
                 Inl e \<Rightarrow> (Inl e, w)
               | Inr updateData \<Rightarrow>
                   (if nullish updateData then (Inl TypeError, w)
                    else
                      (case pool_query w
                              (Update_where Tenders
                                 [js_get updateData ''tender_number'',
                                  js_get updateData ''description'',
                                  js_get updateData ''closing_date'',
                                  js_get updateData ''site_visits''] i) of
                         (Inl e, w') \<Rightarrow> (Inl e, w')
                       | (Inr rows, w') \<Rightarrow>
                           (case rows of
                              [] \<Rightarrow>
                                (Inr \<lparr>statusCode = 404, headers = cors_headers,
                                      payload = Error_body ''Tender not found''\<rparr>, w')
                            | r # _ \<Rightarrow>
                                (Inr \<lparr>statusCode = 200, headers = cors_headers,
                                      payload = Row_body r\<rparr>, w'))))))
         else if httpMethod ev = ''DELETE'' then
           (if \<not> truthy i then
              (Inr \<lparr>statusCode = 400, headers = cors_headers,
                    payload = Error_body ''ID is required for delete''\<rparr>, w)
            else
              (case pool_query w (Delete_where Tenders i) of
                 (Inl e, w') \<Rightarrow> (Inl e, w')
               | (Inr rows, w') \<Rightarrow>
                   (if length rows = 0 then
                      (Inr \<lparr>statusCode = 404, headers = cors_headers,
                            payload = Error_body ''Tender not found''\<rparr>, w')
                    else
                      (Inr \<lparr>statusCode = 200, headers = cors_headers,
                            payload = Message_body ''Tender deleted successfully''\<rparr>, w'))))
         else
           (Inr \<lparr>statusCode = 405, headers = cors_headers,
                 payload = Error_body ''Method not allowed''\<rparr>, w))"

definition tenders_handler :: "world \<Rightarrow> event \<Rightarrow> response \<times> world" where
  "tenders_handler w ev =
     (if \<not> pool w \<and> url_missing w then
        (\<lparr>statusCode = 500, headers = config_headers,
          payload = Error_body ''Database configuration error''\<rparr>, w)
      else if \<not> pool w \<and> Pool_throws w then
        (\<lparr>statusCode = 500, headers = config_headers,
          payload = Error_body ''Database connection error''\<rparr>, w)
      else
        (let w0 = (if \<not> pool w then w\<lparr>pool := True\<rparr> else w)
         in if httpMethod ev = ''OPTIONS'' then
              (\<lparr>statusCode = 200, headers = cors_headers, payload = Empty_body\<rparr>, w0)
            else
              (case tenders_try w0 ev of
                 (Inr r, w') \<Rightarrow> (r, w')
               | (Inl e, w') \<Rightarrow>
                   (\<lparr>statusCode = 500, headers = cors_headers,
                     payload = Error_body ''Internal server error''\<rparr>, w'))))"

section \<open>The client module\<close>

text \<open>
  \<open>src/services/api.js\<close>. \<open>transformTender\<close> and \<open>transformTask\<close> turn a row as the
  handlers send it into the record the components keep. \<open>tenderAPI_body\<close> and
  \<open>taskAPI_body\<close> are the object that \<open>update\<close> (and \<open>create\<close>) of \<open>tenderAPI\<close> and
  \<open>taskAPI\<close> build from such a record and stringify into the body of the request.
  Each reads properties of its argument and so raises on \<open>null\<close> and \<open>undefined\<close>.
\<close>

definition transformTender :: "js \<Rightarrow> exn + js" where
  "transformTender dbTender =
     (if nullish dbTender then Inl TypeError
      else Inr (Obj
        [(''id'', js_get dbTender ''id''),
         (''tenderNumber'', js_get dbTender ''tender_number''),
         (''description'', js_get dbTender ''description''),
         (''closingDate'', js_get dbTender ''closing_date''),
         (''siteVisits'', js_get dbTender ''site_visits''),
         (''createdAt'', js_get dbTender ''created_at'')]))"

definition transformTask :: "js \<Rightarrow> exn + js" where
  "transformTask dbTask =
     (if nullish dbTask then Inl TypeError
      else Inr (Obj
        [(''id'', js_get dbTask ''id''),
         (''description'', js_get dbTask ''description''),
         (''assignedTo'', js_get dbTask ''assigned_to''),
         (''dueDate'', js_get dbTask ''due_date''),
         (''status'', js_get dbTask ''status''),
         (''createdAt'', js_get dbTask ''created_at'')]))"

definition tenderAPI_body :: "js \<Rightarrow> exn + js" where
  "tenderAPI_body tender =
     (if nullish tender then Inl TypeError
      else Inr (Obj
        [(''tender_number'', js_get tender ''tenderNumber''),
         (''description'', js_get tender ''description''),
         (''closing_date'', js_get tender ''closingDate''),
         (''site_visits'', js_get tender ''siteVisits'')]))"

definition taskAPI_body :: "js \<Rightarrow> exn + js" where
  "taskAPI_body task =
     (if nullish task then Inl TypeError
      else Inr (Obj
        [(''description'', js_get task ''description''),
         (''assigned_to'', js_get task ''assignedTo''),
         (''due_date'', js_get task ''dueDate''),
         (''status'', js_get task ''status'')]))"

text \<open>
  The fields of a stored record, and the names the components use for the
  client-writable ones.
\<close>

definition known_fields :: "table \<Rightarrow> string list" where
  "known_fields t = ''id'' # columns t @ [''created_at'', ''updated_at'']"

definition client_fields :: "table \<Rightarrow> string list" where
  "client_fields t =
     (case t of
        Tenders \<Rightarrow> [''tenderNumber'', ''description'', ''closingDate'', ''siteVisits'']
      | Tasks \<Rightarrow> [''description'', ''assignedTo'', ''dueDate'', ''status''])"

section \<open>Sample data\<close>

definition task_a :: row where
  "task_a = \<lparr>row_id = ''1'',
     cols = [(''description'', Str ''Ship report''), (''assigned_to'', Str ''Alex''),
             (''due_date'', Str ''2025-03-01''), (''status'', Str ''PENDING'')],
     created_at = 10, updated_at = 10\<rparr>"

definition task_b :: row where
  "task_b = \<lparr>row_id = ''2'',
     cols = [(''description'', Str ''Call site''), (''assigned_to'', Str ''Sam''),
             (''due_date'', Str ''2025-04-01''), (''status'', Str ''SENT'')],
     created_at = 20, updated_at = 25\<rparr>"

definition tender_a :: row where
  "tender_a = \<lparr>row_id = ''1'',
     cols = [(''tender_number'', Str ''T-1''), (''description'', Str ''Road works''),
             (''closing_date'', Str ''2025-05-01''), (''site_visits'', Str ''Depot'')],
     created_at = 5, updated_at = 5\<rparr>"

definition world_up :: world where
  "world_up = \<lparr>DATABASE_URL = Some ''postgres://db'', pool = False, Pool_throws = False,
     tables = (\<lambda>t. case t of Tenders \<Rightarrow> [tender_a] | Tasks \<Rightarrow> [task_a, task_b]),
     next_id = 3, clock = 30, rejects = (\<lambda>q. False), queries = []\<rparr>"

definition world_unset :: world where
  "world_unset = world_up\<lparr>DATABASE_URL := None\<rparr>"

definition world_down :: world where
  "world_down = world_up\<lparr>rejects := (\<lambda>q. True)\<rparr>"

definition request :: "string \<Rightarrow> string \<Rightarrow> json_text \<Rightarrow> event" where
  "request m p b = \<lparr>httpMethod = m, path = p, body = b\<rparr>"

definition task_json :: js where
  "task_json = Obj
     [(''id'', Num 1), (''description'', Str ''Ship report''), (''assigned_to'', Str ''Alex''),
      (''due_date'', Str ''2025-03-01''), (''status'', Str ''PENDING''),
      (''created_at'', Str ''2025-02-01T08:00''), (''updated_at'', Str ''2025-02-01T08:00'')]"

definition task_json_later :: js where
  "task_json_later = Obj
     [(''id'', Num 1), (''description'', Str ''Ship report''), (''assigned_to'', Str ''Alex''),
      (''due_date'', Str ''2025-03-01''), (''status'', Str ''PENDING''),
      (''created_at'', Str ''2025-02-01T08:00''), (''updated_at'', Str ''2025-02-09T17:30'')]"

definition tender_json :: js where
  "tender_json = Obj
     [(''id'', Num 4), (''tender_number'', Str ''T-1''), (''description'', Str ''Road works''),
      (''closing_date'', Str ''2025-05-01''), (''site_visits'', Str ''Depot''),
      (''created_at'', Str ''2025-01-15T09:00''), (''updated_at'', Str ''2025-01-15T09:00'')]"

section \<open>Paths and the storage: auxiliary facts\<close>

lemma split_str_nonempty: "split_str c s \<noteq> []"
  by (induction s) (auto split: list.splits)

lemma split_str_single: "split_str c s = [[]] \<longleftrightarrow> s = []"
  by (cases s) (auto simp: split_str_nonempty split: list.splits)

lemma last_split_str: "last (split_str c s) = [] \<longleftrightarrow> (s = [] \<or> last s = c)"
proof (induction s)
  case Nil
  show ?case by simp
next
  case (Cons x xs)
  obtain p ps where sp: "split_str c xs = p # ps"
    using split_str_nonempty [of c xs] by (cases "split_str c xs") auto
  show ?case
  proof (cases "x = c")
    case True
    then show ?thesis using Cons.IH sp by auto
  next
    case False
    show ?thesis
    proof (cases ps)
      case Nil
      have "p = [] \<longleftrightarrow> xs = []" using split_str_single [of c xs] sp Nil by simp
      then show ?thesis using False Cons.IH sp Nil by auto
    next
      case (Cons q qs)
      then have "xs \<noteq> []" using sp by auto
      then show ?thesis using False Cons.IH sp Cons by simp
    qed
  qed
qed

lemma path_id_trailing_slash:
  assumes "p \<noteq> []" "last p = CHR ''/''" "name \<noteq> []"
  shows "path_id name p = Str []"
  using assms last_split_str [of "CHR ''/''" p] split_str_nonempty [of "CHR ''/''" p]
  by (auto simp: path_id_def part_at_end_def Let_def)

lemma pool_query_rejected:
  "rejects w q \<Longrightarrow> pool_query w q = (Inl StorageError, w\<lparr>queries := queries w @ [q]\<rparr>)"
  by (simp add: pool_query_def)

lemma pool_query_accepted:
  "\<not> rejects w q \<Longrightarrow>
   pool_query w q =
     (case q of
        Select_all t \<Rightarrow>
          (Inr (sort_key (\<lambda>r. - created_at r) (tables w t)), w\<lparr>queries := queries w @ [q]\<rparr>)
      | Insert_into t ps \<Rightarrow>
          (Inr [\<lparr>row_id = id_text (next_id w), cols = zip (columns t) (map sql_param ps),
                 created_at = clock w, updated_at = clock w\<rparr>],
           w\<lparr>queries := queries w @ [q],
              tables := (tables w)(t := tables w t @
                 [\<lparr>row_id = id_text (next_id w), cols = zip (columns t) (map sql_param ps),
                   created_at = clock w, updated_at = clock w\<rparr>]),
              next_id := Suc (next_id w)\<rparr>)
      | Update_where t ps i \<Rightarrow>
          (Inr (filter (\<lambda>r. Str (row_id r) = i)
                  (map (\<lambda>r. if Str (row_id r) = i
                             then r\<lparr>cols := zip (columns t) (map sql_param ps),
                                    updated_at := clock w\<rparr>
                             else r) (tables w t))),
           w\<lparr>queries := queries w @ [q],
              tables := (tables w)(t :=
                 map (\<lambda>r. if Str (row_id r) = i
                            then r\<lparr>cols := zip (columns t) (map sql_param ps),
                                   updated_at := clock w\<rparr>
                            else r) (tables w t))\<rparr>)
      | Delete_where t i \<Rightarrow>
          (Inr (filter (\<lambda>r. Str (row_id r) = i) (tables w t)),
           w\<lparr>queries := queries w @ [q],
              tables := (tables w)(t := filter (\<lambda>r. Str (row_id r) \<noteq> i) (tables w t))\<rparr>))"
  by (simp add: pool_query_def Let_def split: stmt.splits)

section \<open>Missing ids\<close>

text \<open>
  C10. A PUT or DELETE whose path ends in a slash has the empty string as its id, and
  the handler answers 400 with the "ID is required" message of the method without
  handing any statement to the storage: the tasks handler always, leaving the process
  as it was; the tenders handler once it has a pool (it had one, or the connection
  string is set and the pool can be made), with the log of statements and the tables
  as they were.
\<close>

theorem trailing_slash_id_required:
  assumes "httpMethod ev = ''PUT'' \<or> httpMethod ev = ''DELETE''"
    and "path ev \<noteq> []" and "last (path ev) = CHR ''/''"
  shows "path_id ''tasks'' (path ev) = Str [] \<and> path_id ''tenders'' (path ev) = Str [] \<and>
         tasks_handler w ev =
           (\<lparr>statusCode = 400, headers = cors_headers,
             payload = Error_body (if httpMethod ev = ''PUT'' then ''ID is required for update''
                                   else ''ID is required for delete'')\<rparr>, w) \<and>
         (pool w \<or> (\<not> url_missing w \<and> \<not> Pool_throws w) \<longrightarrow>
            fst (tenders_handler w ev) =
              \<lparr>statusCode = 400, headers = cors_headers,
                payload = Error_body (if httpMethod ev = ''PUT'' then ''ID is required for update''
                                      else ''ID is required for delete'')\<rparr> \<and>
            queries (snd (tenders_handler w ev)) = queries w \<and>
            tables (snd (tenders_handler w ev)) = tables w)"
proof -
  have a: "path_id ''tasks'' (path ev) = Str []"
    using assms(2,3) by (simp add: path_id_trailing_slash)
  have b: "path_id ''tenders'' (path ev) = Str []"
    using assms(2,3) by (simp add: path_id_trailing_slash)
  have c: "tasks_try w' ev =
             (Inr \<lparr>statusCode = 400, headers = cors_headers,
                   payload = Error_body (if httpMethod ev = ''PUT'' then ''ID is required for update''
                                         else ''ID is required for delete'')\<rparr>, w')" for w'
    using assms(1) a by (auto simp: tasks_try_def)
  have d: "tenders_try w' ev =
             (Inr \<lparr>statusCode = 400, headers = cors_headers,
                   payload = Error_body (if httpMethod ev = ''PUT'' then ''ID is required for update''
                                         else ''ID is required for delete'')\<rparr>, w')" for w'
    using assms(1) b by (auto simp: tenders_try_def)
  have e: "httpMethod ev \<noteq> ''OPTIONS''"
    using assms(1) by auto
  show ?thesis
    using a b e by (auto simp: tasks_handler_def tenders_handler_def c d Let_def)
qed

theorem trailing_slash_id_required_witness:
  "(httpMethod (request ''DELETE'' ''/tenders/'' (Json Null)) = ''PUT'' \<or>
    httpMethod (request ''DELETE'' ''/tenders/'' (Json Null)) = ''DELETE'') \<and>
   path (request ''DELETE'' ''/tenders/'' (Json Null)) \<noteq> [] \<and>
   last (path (request ''DELETE'' ''/tenders/'' (Json Null))) = CHR ''/'' \<and>
   (pool world_up \<or> (\<not> url_missing world_up \<and> \<not> Pool_throws world_up)) \<and>
   fst (tenders_handler world_up (request ''DELETE'' ''/tenders/'' (Json Null))) =
     \<lparr>statusCode = 400, headers = cors_headers,
       payload = Error_body ''ID is required for delete''\<rparr> \<and>
   queries (snd (tenders_handler world_up (request ''DELETE'' ''/tenders/'' (Json Null)))) = []"
  using trailing_slash_id_required [of "request ''DELETE'' ''/tenders/'' (Json Null)" world_up]
  by (simp add: request_def world_up_def url_missing_def)

section \<open>Preflight\<close>

text \<open>
  What the two handlers do with an OPTIONS request. The tasks handler answers 200 with
  the empty body before anything else, and the process is left as it was. The tenders
  handler makes its pool first, and answers 200 with the empty body when it has a pool
  or can make one. Neither hands a statement to the storage.
\<close>

lemma options_preflight:
  assumes "httpMethod ev = ''OPTIONS''"
  shows "tasks_handler w ev =
           (\<lparr>statusCode = 200, headers = cors_headers, payload = Empty_body\<rparr>, w) \<and>
         (pool w \<or> (\<not> url_missing w \<and> \<not> Pool_throws w) \<longrightarrow>
            fst (tenders_handler w ev) =
              \<lparr>statusCode = 200, headers = cors_headers, payload = Empty_body\<rparr>) \<and>
         queries (snd (tenders_handler w ev)) = queries w \<and>
         tables (snd (tenders_handler w ev)) = tables w"
  using assms by (auto simp: tasks_handler_def tenders_handler_def Let_def)

text \<open>
  C4 at a failing input. With no connection string in the environment and no pool
  yet, an OPTIONS request to the tenders handler is not answered 200 with the empty
  body: the test of the connection string comes before the preflight branch, and the
  answer is 500 with the configuration error, under the two headers of that response.
  The tasks handler, given the same request in the same process, answers the
  preflight first: 200, the empty body, the full set of headers.
\<close>

theorem tenders_preflight_without_url:
  "httpMethod (request ''OPTIONS'' ''/tenders'' (Json Null)) = ''OPTIONS'' \<and>
   DATABASE_URL world_unset = None \<and> pool world_unset = False \<and>
   tenders_handler world_unset (request ''OPTIONS'' ''/tenders'' (Json Null)) =
     (\<lparr>statusCode = 500, headers = config_headers,
       payload = Error_body ''Database configuration error''\<rparr>, world_unset) \<and>
   tasks_handler world_unset (request ''OPTIONS'' ''/tenders'' (Json Null)) =
     (\<lparr>statusCode = 200, headers = cors_headers, payload = Empty_body\<rparr>, world_unset)"
  by (simp add: tenders_handler_def tasks_handler_def request_def world_unset_def world_up_def
      url_missing_def)

section \<open>Updating an unknown id\<close>

lemma map_update_none:
  assumes "\<forall>r \<in> set rs. Str (row_id r) \<noteq> i"
  shows "map (\<lambda>r. if Str (row_id r) = i then f r else r) rs = rs"
  using assms by (induction rs) auto

lemma tables_pool_query_rejected: "rejects w q \<Longrightarrow> tables (snd (pool_query w q)) = tables w"
  by (simp add: pool_query_rejected)

lemma tables_pool_query_update_unknown:
  assumes "\<forall>r \<in> set (tables w t). Str (row_id r) \<noteq> i"
  shows "tables (snd (pool_query w (Update_where t ps i))) = tables w"
proof (cases "rejects w (Update_where t ps i)")
  case True
  then show ?thesis by (rule tables_pool_query_rejected)
next
  case False
  then show ?thesis
    using assms by (simp add: pool_query_accepted map_update_none)
qed

lemma rows_pool_query_update_unknown:
  assumes "\<forall>r \<in> set (tables w t). Str (row_id r) \<noteq> i" "\<not> rejects w (Update_where t ps i)"
  shows "fst (pool_query w (Update_where t ps i)) = Inr []"
  using assms by (simp add: pool_query_accepted map_update_none filter_empty_conv)

lemma update_unknown_result:
  assumes "\<forall>r \<in> set (tables w t). Str (row_id r) \<noteq> i"
    and "pool_query w (Update_where t ps i) = (res, w')"
  shows "tables w' = tables w \<and> (\<not> rejects w (Update_where t ps i) \<longrightarrow> res = Inr [])"
  using tables_pool_query_update_unknown [OF assms(1), of ps]
    rows_pool_query_update_unknown [OF assms(1), of ps] assms(2)
  by auto

lemma tasks_put_unknown_unchanged:
  assumes "httpMethod ev = ''PUT''"
    and "\<forall>r \<in> set (tables w Tasks). Str (row_id r) \<noteq> path_id ''tasks'' (path ev)"
  shows "tables (snd (tasks_try w ev)) = tables w"
  using assms(1) update_unknown_result [OF assms(2)]
  by (auto simp: tasks_try_def Let_def split: sum.splits prod.splits list.splits)

lemma tasks_put_unknown_404:
  assumes "httpMethod ev = ''PUT''"
    and "\<forall>r \<in> set (tables w Tasks). Str (row_id r) \<noteq> path_id ''tasks'' (path ev)"
    and "truthy (path_id ''tasks'' (path ev))"
    and "body ev = Json v" and "\<not> nullish v"
    and "\<not> rejects w (Update_where Tasks (map (js_get v) (columns Tasks)) (path_id ''tasks'' (path ev)))"
  shows "fst (tasks_try w ev) =
           Inr \<lparr>statusCode = 404, headers = cors_headers, payload = Error_body ''Task not found''\<rparr>"
  using assms(1,3,4,5,6) update_unknown_result [OF assms(2)]
  by (auto simp: tasks_try_def Let_def columns_def split: sum.splits prod.splits list.splits)

lemma tenders_put_unknown_unchanged:
  assumes "httpMethod ev = ''PUT''"
    and "\<forall>r \<in> set (tables w Tenders). Str (row_id r) \<noteq> path_id ''tenders'' (path ev)"
  shows "tables (snd (tenders_try w ev)) = tables w"
  using assms(1) update_unknown_result [OF assms(2)]
  by (auto simp: tenders_try_def Let_def split: sum.splits prod.splits list.splits)

lemma tenders_put_unknown_404:
  assumes "httpMethod ev = ''PUT''"
    and "\<forall>r \<in> set (tables w Tenders). Str (row_id r) \<noteq> path_id ''tenders'' (path ev)"
    and "truthy (path_id ''tenders'' (path ev))"
    and "body ev = Json v" and "\<not> nullish v"
    and "\<not> rejects w (Update_where Tenders (map (js_get v) (columns Tenders)) (path_id ''tenders'' (path ev)))"
  shows "fst (tenders_try w ev) =
           Inr \<lparr>statusCode = 404, headers = cors_headers, payload = Error_body ''Tender not found''\<rparr>"
  using assms(1,3,4,5,6) update_unknown_result [OF assms(2)]
  by (auto simp: tenders_try_def Let_def columns_def split: sum.splits prod.splits list.splits)

lemma tasks_handler_try:
  "httpMethod ev \<noteq> ''OPTIONS'' \<Longrightarrow>
   snd (tasks_handler w ev) = snd (tasks_try w ev) \<and>
   fst (tasks_handler w ev) =
     (case fst (tasks_try w ev) of
        Inr r \<Rightarrow> r
      | Inl e \<Rightarrow> \<lparr>statusCode = 500, headers = cors_headers,
                   payload = Error_body ''Internal server error''\<rparr>)"
  by (simp add: tasks_handler_def split: prod.splits sum.splits)

lemma pool_already: "pool w \<Longrightarrow> w\<lparr>pool := True\<rparr> = w"
  by (cases w) simp

lemma tenders_handler_try:
  "httpMethod ev \<noteq> ''OPTIONS'' \<Longrightarrow> pool w \<or> (\<not> url_missing w \<and> \<not> Pool_throws w) \<Longrightarrow>
   snd (tenders_handler w ev) = snd (tenders_try (w\<lparr>pool := True\<rparr>) ev) \<and>
   fst (tenders_handler w ev) =
     (case fst (tenders_try (w\<lparr>pool := True\<rparr>) ev) of
        Inr r \<Rightarrow> r
      | Inl e \<Rightarrow> \<lparr>statusCode = 500, headers = cors_headers,
                   payload = Error_body ''Internal server error''\<rparr>)"
  by (cases "pool w") (auto simp: tenders_handler_def Let_def pool_already split: prod.splits sum.splits)

lemma tenders_handler_no_pool:
  "\<not> (pool w \<or> (\<not> url_missing w \<and> \<not> Pool_throws w)) \<Longrightarrow>
   snd (tenders_handler w ev) = w \<and> statusCode (fst (tenders_handler w ev)) = 500 \<and>
   headers (fst (tenders_handler w ev)) = config_headers"
  by (auto simp: tenders_handler_def)

text \<open>
  C1, as the code has it. A PUT whose path carries a non-empty id that no stored row
  has leaves the tables as they were, whatever the body and whether or not the storage
  answers. It is answered 404 when the body parses to a value other than \<open>null\<close> and
  the storage does not refuse the statement (for the tenders handler: when it has a
  pool or can make one).
\<close>

theorem put_unknown_id:
  assumes "httpMethod ev = ''PUT''"
  shows "(path_id ''tasks'' (path ev) = Str i \<and> i \<noteq> [] \<and>
          (\<forall>r \<in> set (tables w Tasks). row_id r \<noteq> i) \<longrightarrow>
            tables (snd (tasks_handler w ev)) = tables w \<and>
            (body ev = Json v \<and> \<not> nullish v \<and>
             \<not> rejects w (Update_where Tasks (map (js_get v) (columns Tasks)) (Str i)) \<longrightarrow>
               fst (tasks_handler w ev) =
                 \<lparr>statusCode = 404, headers = cors_headers,
                   payload = Error_body ''Task not found''\<rparr>)) \<and>
         (path_id ''tenders'' (path ev) = Str i \<and> i \<noteq> [] \<and>
          (\<forall>r \<in> set (tables w Tenders). row_id r \<noteq> i) \<longrightarrow>
            tables (snd (tenders_handler w ev)) = tables w \<and>
            (body ev = Json v \<and> \<not> nullish v \<and>
             (pool w \<or> (\<not> url_missing w \<and> \<not> Pool_throws w)) \<and>
             \<not> rejects w (Update_where Tenders (map (js_get v) (columns Tenders)) (Str i)) \<longrightarrow>
               fst (tenders_handler w ev) =
                 \<lparr>statusCode = 404, headers = cors_headers,
                   payload = Error_body ''Tender not found''\<rparr>))"
proof -
  have m: "httpMethod ev \<noteq> ''OPTIONS''" using assms by simp
  have 1: "tables (snd (tasks_handler w ev)) = tables w"
    if "path_id ''tasks'' (path ev) = Str i" "\<forall>r \<in> set (tables w Tasks). row_id r \<noteq> i"
    using that tasks_put_unknown_unchanged [OF assms, of w] tasks_handler_try [OF m, of w]
    by simp
  have 2: "fst (tasks_handler w ev) =
             \<lparr>statusCode = 404, headers = cors_headers, payload = Error_body ''Task not found''\<rparr>"
    if "path_id ''tasks'' (path ev) = Str i" "i \<noteq> []" "\<forall>r \<in> set (tables w Tasks). row_id r \<noteq> i"
      "body ev = Json v" "\<not> nullish v"
      "\<not> rejects w (Update_where Tasks (map (js_get v) (columns Tasks)) (Str i))"
    using that tasks_put_unknown_404 [OF assms, of w v] tasks_handler_try [OF m, of w]
    by simp
  have 3: "tables (snd (tenders_handler w ev)) = tables w"
    if "path_id ''tenders'' (path ev) = Str i" "\<forall>r \<in> set (tables w Tenders). row_id r \<noteq> i"
  proof (cases "pool w \<or> (\<not> url_missing w \<and> \<not> Pool_throws w)")
    case True
    then show ?thesis
      using that tenders_put_unknown_unchanged [OF assms, of "w\<lparr>pool := True\<rparr>"]
        tenders_handler_try [OF m True]
      by simp
  next
    case False
    then show ?thesis using tenders_handler_no_pool [of w ev] by simp
  qed
  have 4: "fst (tenders_handler w ev) =
             \<lparr>statusCode = 404, headers = cors_headers, payload = Error_body ''Tender not found''\<rparr>"
    if "path_id ''tenders'' (path ev) = Str i" "i \<noteq> []" "\<forall>r \<in> set (tables w Tenders). row_id r \<noteq> i"
      "body ev = Json v" "\<not> nullish v" "pool w \<or> (\<not> url_missing w \<and> \<not> Pool_throws w)"
      "\<not> rejects w (Update_where Tenders (map (js_get v) (columns Tenders)) (Str i))"
    using that tenders_put_unknown_404 [OF assms, of "w\<lparr>pool := True\<rparr>" v]
      tenders_handler_try [OF m that(6)]
    by simp
  show ?thesis using 1 2 3 4 by blast
qed

theorem put_unknown_id_witness:
  "httpMethod (request ''PUT'' ''/tasks/7'' (Json (Obj [(''status'', Str ''SENT'')]))) = ''PUT'' \<and>
   path_id ''tasks'' (path (request ''PUT'' ''/tasks/7'' (Json (Obj [(''status'', Str ''SENT'')]))))
     = Str ''7'' \<and>
   path_id ''tenders'' (path (request ''PUT'' ''/tasks/7'' (Json (Obj [(''status'', Str ''SENT'')]))))
     = Str ''7'' \<and>
   ''7'' \<noteq> [] \<and>
   map row_id (tables world_up Tasks) = [''1'', ''2''] \<and>
   map row_id (tables world_up Tenders) = [''1''] \<and>
   \<not> nullish (Obj [(''status'', Str ''SENT'')]) \<and>
   (pool world_up \<or> (\<not> url_missing world_up \<and> \<not> Pool_throws world_up)) \<and>
   tables (snd (tasks_handler world_up
     (request ''PUT'' ''/tasks/7'' (Json (Obj [(''status'', Str ''SENT'')]))))) = tables world_up \<and>
   fst (tasks_handler world_up
     (request ''PUT'' ''/tasks/7'' (Json (Obj [(''status'', Str ''SENT'')])))) =
     \<lparr>statusCode = 404, headers = cors_headers, payload = Error_body ''Task not found''\<rparr> \<and>
   tables (snd (tenders_handler world_up
     (request ''PUT'' ''/tasks/7'' (Json (Obj [(''status'', Str ''SENT'')]))))) = tables world_up \<and>
   fst (tenders_handler world_up
     (request ''PUT'' ''/tasks/7'' (Json (Obj [(''status'', Str ''SENT'')])))) =
     \<lparr>statusCode = 404, headers = cors_headers, payload = Error_body ''Tender not found''\<rparr>"
proof -
  let ?v = "Obj [(''status'', Str ''SENT'')]"
  let ?ev = "request ''PUT'' ''/tasks/7'' (Json ?v)"
  have m: "httpMethod ?ev = ''PUT''"
    by (simp add: request_def)
  have i: "path_id ''tasks'' (path ?ev) = Str ''7''" "path_id ''tenders'' (path ?ev) = Str ''7''"
    by (simp_all add: request_def path_id_def part_at_end_def)
  have r: "\<forall>r \<in> set (tables world_up Tasks). row_id r \<noteq> ''7''"
    "\<forall>r \<in> set (tables world_up Tenders). row_id r \<noteq> ''7''"
    by (simp_all add: world_up_def task_a_def task_b_def tender_a_def)
  have b: "body ?ev = Json ?v" "\<not> nullish ?v"
    by (simp_all add: request_def)
  have l: "map row_id (tables world_up Tasks) = [''1'', ''2'']"
    "map row_id (tables world_up Tenders) = [''1'']"
    by (simp_all add: world_up_def task_a_def task_b_def tender_a_def)
  have p: "pool world_up \<or> (\<not> url_missing world_up \<and> \<not> Pool_throws world_up)"
    by (simp add: world_up_def url_missing_def)
  have s: "\<not> rejects world_up q" for q
    by (simp add: world_up_def)
  show ?thesis
    using put_unknown_id [OF m, of "''7''" world_up ?v] m i r l b p s by simp
qed

text \<open>
  C1 as stated fails: a PUT to \<open>/tasks/7\<close>, an id no row has, with a body that is not
  JSON is answered 500, since the body is parsed before the statement is issued.
\<close>

theorem put_unknown_id_counterexample:
  "httpMethod (request ''PUT'' ''/tasks/7'' Malformed) = ''PUT'' \<and>
   path_id ''tasks'' (path (request ''PUT'' ''/tasks/7'' Malformed)) = Str ''7'' \<and>
   map row_id (tables world_up Tasks) = [''1'', ''2''] \<and>
   fst (tasks_handler world_up (request ''PUT'' ''/tasks/7'' Malformed)) =
     \<lparr>statusCode = 500, headers = cors_headers,
       payload = Error_body ''Internal server error''\<rparr>"
  by (simp add: tasks_handler_def tasks_try_def request_def world_up_def task_a_def task_b_def
      path_id_def part_at_end_def)

section \<open>Deleting\<close>

lemma tasks_try_delete:
  assumes "httpMethod ev = ''DELETE''" and "path_id ''tasks'' (path ev) = Str i" and "i \<noteq> []"
    and "\<not> rejects w (Delete_where Tasks (Str i))"
  shows "tasks_try w ev =
           (Inr (if \<exists>r \<in> set (tables w Tasks). row_id r = i
                 then \<lparr>statusCode = 200, headers = cors_headers,
                       payload = Message_body ''Task deleted successfully''\<rparr>
                 else \<lparr>statusCode = 404, headers = cors_headers,
                       payload = Error_body ''Task not found''\<rparr>),
            w\<lparr>queries := queries w @ [Delete_where Tasks (Str i)],
               tables := (tables w)(Tasks := filter (\<lambda>r. row_id r \<noteq> i) (tables w Tasks))\<rparr>)"
  using assms by (auto simp: tasks_try_def Let_def pool_query_accepted filter_empty_conv)

lemma tenders_try_delete:
  assumes "httpMethod ev = ''DELETE''" and "path_id ''tenders'' (path ev) = Str i" and "i \<noteq> []"
    and "\<not> rejects w (Delete_where Tenders (Str i))"
  shows "tenders_try w ev =
           (Inr (if \<exists>r \<in> set (tables w Tenders). row_id r = i
                 then \<lparr>statusCode = 200, headers = cors_headers,
                       payload = Message_body ''Tender deleted successfully''\<rparr>
                 else \<lparr>statusCode = 404, headers = cors_headers,
                       payload = Error_body ''Tender not found''\<rparr>),
            w\<lparr>queries := queries w @ [Delete_where Tenders (Str i)],
               tables := (tables w)(Tenders := filter (\<lambda>r. row_id r \<noteq> i) (tables w Tenders))\<rparr>)"
  using assms by (auto simp: tenders_try_def Let_def pool_query_accepted filter_empty_conv)

lemma tasks_handler_delete:
  assumes "httpMethod ev = ''DELETE''" and "path_id ''tasks'' (path ev) = Str i" and "i \<noteq> []"
    and "\<not> rejects w (Delete_where Tasks (Str i))"
  shows "tasks_handler w ev =
           (if \<exists>r \<in> set (tables w Tasks). row_id r = i
            then \<lparr>statusCode = 200, headers = cors_headers,
                  payload = Message_body ''Task deleted successfully''\<rparr>
            else \<lparr>statusCode = 404, headers = cors_headers,
                  payload = Error_body ''Task not found''\<rparr>,
            w\<lparr>queries := queries w @ [Delete_where Tasks (Str i)],
               tables := (tables w)(Tasks := filter (\<lambda>r. row_id r \<noteq> i) (tables w Tasks))\<rparr>)"
  using assms(1) by (simp add: tasks_handler_def tasks_try_delete [OF assms])

lemma tenders_handler_delete:
  assumes "httpMethod ev = ''DELETE''" and "path_id ''tenders'' (path ev) = Str i" and "i \<noteq> []"
    and "\<not> rejects w (Delete_where Tenders (Str i))"
    and "pool w \<or> (\<not> url_missing w \<and> \<not> Pool_throws w)"
  shows "tenders_handler w ev =
           (if \<exists>r \<in> set (tables w Tenders). row_id r = i
            then \<lparr>statusCode = 200, headers = cors_headers,
                  payload = Message_body ''Tender deleted successfully''\<rparr>
            else \<lparr>statusCode = 404, headers = cors_headers,
                  payload = Error_body ''Tender not found''\<rparr>,
            w\<lparr>pool := True, queries := queries w @ [Delete_where Tenders (Str i)],
               tables := (tables w)(Tenders := filter (\<lambda>r. row_id r \<noteq> i) (tables w Tenders))\<rparr>)"
proof -
  have "\<not> rejects (w\<lparr>pool := True\<rparr>) (Delete_where Tenders (Str i))"
    using assms(4) by simp
  from tenders_try_delete [OF assms(1,2,3) this] show ?thesis
    using assms(1,5) by (cases "pool w") (auto simp: tenders_handler_def Let_def pool_already)
qed

text \<open>
  C6, as the code has it. A DELETE with a non-empty id that the storage carries out
  (for the tenders handler: when it has a pool or can make one) removes the rows with
  that id and nothing else. When a row had the id the answer is 200 with the fixed
  message that the record was deleted; when none had it the answer is 404. The same
  request once more is answered 404.
\<close>

theorem delete_by_id:
  assumes "httpMethod ev = ''DELETE''" and "i \<noteq> []"
  shows "(path_id ''tasks'' (path ev) = Str i \<and> \<not> rejects w (Delete_where Tasks (Str i)) \<longrightarrow>
            tables (snd (tasks_handler w ev)) =
              (tables w)(Tasks := filter (\<lambda>r. row_id r \<noteq> i) (tables w Tasks)) \<and>
            fst (tasks_handler w ev) =
              (if \<exists>r \<in> set (tables w Tasks). row_id r = i
               then \<lparr>statusCode = 200, headers = cors_headers,
                     payload = Message_body ''Task deleted successfully''\<rparr>
               else \<lparr>statusCode = 404, headers = cors_headers,
                     payload = Error_body ''Task not found''\<rparr>) \<and>
            fst (tasks_handler (snd (tasks_handler w ev)) ev) =
              \<lparr>statusCode = 404, headers = cors_headers, payload = Error_body ''Task not found''\<rparr>) \<and>
         (path_id ''tenders'' (path ev) = Str i \<and> \<not> rejects w (Delete_where Tenders (Str i)) \<and>
          (pool w \<or> (\<not> url_missing w \<and> \<not> Pool_throws w)) \<longrightarrow>
            tables (snd (tenders_handler w ev)) =
              (tables w)(Tenders := filter (\<lambda>r. row_id r \<noteq> i) (tables w Tenders)) \<and>
            fst (tenders_handler w ev) =
              (if \<exists>r \<in> set (tables w Tenders). row_id r = i
               then \<lparr>statusCode = 200, headers = cors_headers,
                     payload = Message_body ''Tender deleted successfully''\<rparr>
               else \<lparr>statusCode = 404, headers = cors_headers,
                     payload = Error_body ''Tender not found''\<rparr>) \<and>
            fst (tenders_handler (snd (tenders_handler w ev)) ev) =
              \<lparr>statusCode = 404, headers = cors_headers, payload = Error_body ''Tender not found''\<rparr>)"
proof -
  have tasks: "fst (tasks_handler (snd (tasks_handler w ev)) ev) =
      \<lparr>statusCode = 404, headers = cors_headers, payload = Error_body ''Task not found''\<rparr>"
    if p: "path_id ''tasks'' (path ev) = Str i" and r: "\<not> rejects w (Delete_where Tasks (Str i))"
  proof -
    let ?w1 = "snd (tasks_handler w ev)"
    have w1: "?w1 = w\<lparr>queries := queries w @ [Delete_where Tasks (Str i)],
               tables := (tables w)(Tasks := filter (\<lambda>r. row_id r \<noteq> i) (tables w Tasks))\<rparr>"
      by (simp add: tasks_handler_delete [OF assms(1) p assms(2) r])
    have r1: "\<not> rejects ?w1 (Delete_where Tasks (Str i))"
      using r by (simp add: w1)
    have none: "\<not> (\<exists>r \<in> set (tables ?w1 Tasks). row_id r = i)"
      by (simp add: w1)
    show ?thesis
      using none by (simp add: tasks_handler_delete [OF assms(1) p assms(2) r1])
  qed
  have tenders: "fst (tenders_handler (snd (tenders_handler w ev)) ev) =
      \<lparr>statusCode = 404, headers = cors_headers, payload = Error_body ''Tender not found''\<rparr>"
    if p: "path_id ''tenders'' (path ev) = Str i" and r: "\<not> rejects w (Delete_where Tenders (Str i))"
      and c: "pool w \<or> (\<not> url_missing w \<and> \<not> Pool_throws w)"
  proof -
    let ?w1 = "snd (tenders_handler w ev)"
    have w1: "?w1 = w\<lparr>pool := True, queries := queries w @ [Delete_where Tenders (Str i)],
               tables := (tables w)(Tenders := filter (\<lambda>r. row_id r \<noteq> i) (tables w Tenders))\<rparr>"
      by (simp add: tenders_handler_delete [OF assms(1) p assms(2) r c])
    have r1: "\<not> rejects ?w1 (Delete_where Tenders (Str i))"
      using r by (simp add: w1)
    have c1: "pool ?w1 \<or> (\<not> url_missing ?w1 \<and> \<not> Pool_throws ?w1)"
      by (simp add: w1)
    have none: "\<not> (\<exists>r \<in> set (tables ?w1 Tenders). row_id r = i)"
      by (simp add: w1)
    show ?thesis
      using none by (simp add: tenders_handler_delete [OF assms(1) p assms(2) r1 c1])
  qed
  show ?thesis
    using tasks tenders
    by (auto simp: tasks_handler_delete [OF assms(1) _ assms(2)]
        tenders_handler_delete [OF assms(1) _ assms(2)])
qed

theorem delete_by_id_witness:
  "httpMethod (request ''DELETE'' ''/tasks/1'' (Json Null)) = ''DELETE'' \<and> ''1'' \<noteq> [] \<and>
   path_id ''tasks'' (path (request ''DELETE'' ''/tasks/1'' (Json Null))) = Str ''1'' \<and>
   path_id ''tenders'' (path (request ''DELETE'' ''/tasks/1'' (Json Null))) = Str ''1'' \<and>
   \<not> rejects world_up (Delete_where Tasks (Str ''1'')) \<and>
   \<not> rejects world_up (Delete_where Tenders (Str ''1'')) \<and>
   (pool world_up \<or> (\<not> url_missing world_up \<and> \<not> Pool_throws world_up)) \<and>
   (\<exists>r \<in> set (tables world_up Tasks). row_id r = ''1'') \<and>
   (\<exists>r \<in> set (tables world_up Tenders). row_id r = ''1'') \<and>
   fst (tasks_handler world_up (request ''DELETE'' ''/tasks/1'' (Json Null))) =
     \<lparr>statusCode = 200, headers = cors_headers,
       payload = Message_body ''Task deleted successfully''\<rparr> \<and>
   fst (tasks_handler (snd (tasks_handler world_up (request ''DELETE'' ''/tasks/1'' (Json Null))))
          (request ''DELETE'' ''/tasks/1'' (Json Null))) =
     \<lparr>statusCode = 404, headers = cors_headers, payload = Error_body ''Task not found''\<rparr> \<and>
   fst (tenders_handler world_up (request ''DELETE'' ''/tasks/1'' (Json Null))) =
     \<lparr>statusCode = 200, headers = cors_headers,
       payload = Message_body ''Tender deleted successfully''\<rparr>"
proof -
  let ?ev = "request ''DELETE'' ''/tasks/1'' (Json Null)"
  have m: "httpMethod ?ev = ''DELETE''"
    by (simp add: request_def)
  have n: "''1'' \<noteq> ([] :: string)"
    by simp
  have i: "path_id ''tasks'' (path ?ev) = Str ''1''" "path_id ''tenders'' (path ?ev) = Str ''1''"
    by (simp_all add: request_def path_id_def part_at_end_def)
  have r: "\<exists>r \<in> set (tables world_up Tasks). row_id r = ''1''"
    "\<exists>r \<in> set (tables world_up Tenders). row_id r = ''1''"
    by (simp_all add: world_up_def task_a_def task_b_def tender_a_def)
  have p: "pool world_up \<or> (\<not> url_missing world_up \<and> \<not> Pool_throws world_up)"
    by (simp add: world_up_def url_missing_def)
  have s: "\<not> rejects world_up q" for q
    by (simp add: world_up_def)
  show ?thesis
    using delete_by_id [OF m n, of world_up] m i r p s by simp
qed

text \<open>
  C6 as stated fails: the answer to a successful delete says nothing about the row
  removed. Deleting task 1 and deleting task 2 are answered alike.
\<close>

theorem delete_by_id_counterexample:
  "row_id task_a = ''1'' \<and> row_id task_b = ''2'' \<and>
   tables world_up Tasks = [task_a, task_b] \<and>
   fst (tasks_handler world_up (request ''DELETE'' ''/tasks/1'' (Json Null))) =
     \<lparr>statusCode = 200, headers = cors_headers,
       payload = Message_body ''Task deleted successfully''\<rparr> \<and>
   fst (tasks_handler world_up (request ''DELETE'' ''/tasks/2'' (Json Null))) =
     \<lparr>statusCode = 200, headers = cors_headers,
       payload = Message_body ''Task deleted successfully''\<rparr>"
  by (simp add: tasks_handler_def tasks_try_def pool_query_def request_def world_up_def
      task_a_def task_b_def path_id_def part_at_end_def Let_def)

section \<open>Listing\<close>

lemma newest_first_sort:
  "sorted_wrt (\<lambda>a b. created_at b \<le> created_at a) (sort_key (\<lambda>r. - created_at r) rs)"
proof -
  have "sorted (map (\<lambda>r. - created_at r) (sort_key (\<lambda>r. - created_at r) rs))"
    by (rule sorted_sort_key)
  then show ?thesis by (simp add: sorted_map)
qed

lemma tasks_try_get:
  assumes "httpMethod ev = ''GET''" and "\<not> rejects w (Select_all Tasks)"
  shows "tasks_try w ev =
           (Inr \<lparr>statusCode = 200, headers = cors_headers,
                 payload = Rows_body (sort_key (\<lambda>r. - created_at r) (tables w Tasks))\<rparr>,
            w\<lparr>queries := queries w @ [Select_all Tasks]\<rparr>)"
  using assms by (simp add: tasks_try_def Let_def pool_query_accepted)

lemma tenders_try_get:
  assumes "httpMethod ev = ''GET''" and "\<not> rejects w (Select_all Tenders)"
  shows "tenders_try w ev =
           (Inr \<lparr>statusCode = 200, headers = cors_headers,
                 payload = Rows_body (sort_key (\<lambda>r. - created_at r) (tables w Tenders))\<rparr>,
            w\<lparr>queries := queries w @ [Select_all Tenders]\<rparr>)"
  using assms by (simp add: tenders_try_def Let_def pool_query_accepted)

text \<open>
  C7. A GET that the storage answers (for the tenders handler: when it has a pool or
  can make one) is answered 200 with the rows of the table, each exactly once (nothing
  filtered, nothing cut off), ordered by \<open>created_at\<close> from the newest to the oldest;
  the tables stay as they were. The handler does not look at the path of a GET, so this
  holds with or without an id.
\<close>

theorem list_newest_first:
  assumes "httpMethod ev = ''GET''"
  shows "(\<not> rejects w (Select_all Tasks) \<longrightarrow>
            (\<exists>rows. fst (tasks_handler w ev) =
                      \<lparr>statusCode = 200, headers = cors_headers, payload = Rows_body rows\<rparr> \<and>
                    mset rows = mset (tables w Tasks) \<and>
                    sorted_wrt (\<lambda>a b. created_at b \<le> created_at a) rows) \<and>
            tables (snd (tasks_handler w ev)) = tables w) \<and>
         (\<not> rejects w (Select_all Tenders) \<and>
          (pool w \<or> (\<not> url_missing w \<and> \<not> Pool_throws w)) \<longrightarrow>
            (\<exists>rows. fst (tenders_handler w ev) =
                      \<lparr>statusCode = 200, headers = cors_headers, payload = Rows_body rows\<rparr> \<and>
                    mset rows = mset (tables w Tenders) \<and>
                    sorted_wrt (\<lambda>a b. created_at b \<le> created_at a) rows) \<and>
            tables (snd (tenders_handler w ev)) = tables w)"
proof -
  have m: "httpMethod ev \<noteq> ''OPTIONS''" using assms by simp
  have tasks: "tasks_handler w ev =
      (\<lparr>statusCode = 200, headers = cors_headers,
        payload = Rows_body (sort_key (\<lambda>r. - created_at r) (tables w Tasks))\<rparr>,
       w\<lparr>queries := queries w @ [Select_all Tasks]\<rparr>)"
    if "\<not> rejects w (Select_all Tasks)"
    using m by (simp add: tasks_handler_def tasks_try_get [OF assms that])
  have tenders: "tenders_handler w ev =
      (\<lparr>statusCode = 200, headers = cors_headers,
        payload = Rows_body (sort_key (\<lambda>r. - created_at r) (tables w Tenders))\<rparr>,
       w\<lparr>pool := True, queries := queries w @ [Select_all Tenders]\<rparr>)"
    if r: "\<not> rejects w (Select_all Tenders)" and c: "pool w \<or> (\<not> url_missing w \<and> \<not> Pool_throws w)"
  proof -
    have "\<not> rejects (w\<lparr>pool := True\<rparr>) (Select_all Tenders)"
      using r by simp
    from tenders_try_get [OF assms this] show ?thesis
      using m c by (cases "pool w") (auto simp: tenders_handler_def Let_def pool_already)
  qed
  show ?thesis
    using tasks tenders by (simp add: newest_first_sort)
qed

theorem list_newest_first_witness:
  "httpMethod (request ''GET'' ''/tasks'' (Json Null)) = ''GET'' \<and>
   path_id ''tasks'' (path (request ''GET'' ''/tasks'' (Json Null))) = Null \<and>
   \<not> rejects world_up (Select_all Tasks) \<and> \<not> rejects world_up (Select_all Tenders) \<and>
   (pool world_up \<or> (\<not> url_missing world_up \<and> \<not> Pool_throws world_up)) \<and>
   (\<exists>rows. fst (tasks_handler world_up (request ''GET'' ''/tasks'' (Json Null))) =
             \<lparr>statusCode = 200, headers = cors_headers, payload = Rows_body rows\<rparr> \<and>
           mset rows = mset (tables world_up Tasks) \<and>
           sorted_wrt (\<lambda>a b. created_at b \<le> created_at a) rows) \<and>
   (\<exists>rows. fst (tenders_handler world_up (request ''GET'' ''/tasks'' (Json Null))) =
             \<lparr>statusCode = 200, headers = cors_headers, payload = Rows_body rows\<rparr> \<and>
           mset rows = mset (tables world_up Tenders) \<and>
           sorted_wrt (\<lambda>a b. created_at b \<le> created_at a) rows)"
proof -
  let ?ev = "request ''GET'' ''/tasks'' (Json Null)"
  have m: "httpMethod ?ev = ''GET''"
    by (simp add: request_def)
  have i: "path_id ''tasks'' (path ?ev) = Null"
    by (simp add: request_def path_id_def part_at_end_def)
  have p: "pool world_up \<or> (\<not> url_missing world_up \<and> \<not> Pool_throws world_up)"
    by (simp add: world_up_def url_missing_def)
  have s: "\<not> rejects world_up q" for q
    by (simp add: world_up_def)
  show ?thesis
    using list_newest_first [OF m, of world_up] m i p s by simp
qed

section \<open>Creating and updating tasks\<close>

lemma queries_pool_query: "queries (snd (pool_query w q)) = queries w @ [q]"
  by (cases "rejects w q") (simp_all add: pool_query_rejected pool_query_accepted split: stmt.splits)

lemma tasks_handler_post:
  assumes "httpMethod ev = ''POST''" and "body ev = Json v" and "\<not> nullish v"
    and "st = (if truthy (js_get v ''status'') then js_get v ''status'' else Str ''PENDING'')"
    and "q = Insert_into Tasks
              [js_get v ''description'', js_get v ''assigned_to'', js_get v ''due_date'', st]"
    and "\<not> rejects w q"
    and "r = \<lparr>row_id = id_text (next_id w),
              cols = [(''description'', sql_param (js_get v ''description'')),
                      (''assigned_to'', sql_param (js_get v ''assigned_to'')),
                      (''due_date'', sql_param (js_get v ''due_date'')),
                      (''status'', sql_param st)],
              created_at = clock w, updated_at = clock w\<rparr>"
  shows "tasks_handler w ev =
           (\<lparr>statusCode = 201, headers = cors_headers, payload = Row_body r\<rparr>,
            w\<lparr>queries := queries w @ [q],
               tables := (tables w)(Tasks := tables w Tasks @ [r]),
               next_id := Suc (next_id w)\<rparr>)"
  using assms
  by (simp add: tasks_handler_def tasks_try_def Let_def pool_query_accepted columns_def)

lemma tasks_handler_put:
  assumes "httpMethod ev = ''PUT''" and "path_id ''tasks'' (path ev) = Str i" and "i \<noteq> []"
    and "body ev = Json v" and "\<not> nullish v"
    and "q = Update_where Tasks
              [js_get v ''description'', js_get v ''assigned_to'', js_get v ''due_date'',
               js_get v ''status''] (Str i)"
  shows "queries (snd (tasks_handler w ev)) = queries w @ [q]"
    and "\<not> rejects w q \<Longrightarrow>
         tables (snd (tasks_handler w ev)) =
           (tables w)(Tasks :=
              map (\<lambda>r. if row_id r = i
                         then r\<lparr>cols := [(''description'', sql_param (js_get v ''description'')),
                                         (''assigned_to'', sql_param (js_get v ''assigned_to'')),
                                         (''due_date'', sql_param (js_get v ''due_date'')),
                                         (''status'', sql_param (js_get v ''status''))],
                                updated_at := clock w\<rparr>
                         else r) (tables w Tasks))"
proof -
  have m: "httpMethod ev \<noteq> ''OPTIONS''" using assms(1) by simp
  have t: "snd (tasks_try w ev) = snd (pool_query w q)"
    using assms by (simp add: tasks_try_def Let_def split: prod.splits sum.splits list.splits)
  show "queries (snd (tasks_handler w ev)) = queries w @ [q]"
    using tasks_handler_try [OF m, of w] t by (simp add: queries_pool_query)
  show "tables (snd (tasks_handler w ev)) =
           (tables w)(Tasks :=
              map (\<lambda>r. if row_id r = i
                         then r\<lparr>cols := [(''description'', sql_param (js_get v ''description'')),
                                         (''assigned_to'', sql_param (js_get v ''assigned_to'')),
                                         (''due_date'', sql_param (js_get v ''due_date'')),
                                         (''status'', sql_param (js_get v ''status''))],
                                updated_at := clock w\<rparr>
                         else r) (tables w Tasks))" if "\<not> rejects w q"
    using tasks_handler_try [OF m, of w] t that assms(6)
    by (simp add: pool_query_accepted columns_def cong: if_cong)
qed

text \<open>
  C5. A POST to the tasks handler whose body parses to a value other than \<open>null\<close>
  that has no \<open>status\<close>, and whose insert the storage carries out, is answered 201 with
  the new row, which is the row added to the table: its status is \<open>PENDING\<close>, its other
  columns are the fields of the body (a field that is not there is stored as \<open>NULL\<close>),
  its id is the next one of the sequence, and \<open>created_at\<close> and \<open>updated_at\<close> are both
  the server time of the insert.
\<close>

theorem post_without_status:
  assumes "httpMethod ev = ''POST''" and "body ev = Json v" and "\<not> nullish v"
    and "js_get v ''status'' = Undefined"
    and "\<not> rejects w (Insert_into Tasks
            [js_get v ''description'', js_get v ''assigned_to'', js_get v ''due_date'',
             Str ''PENDING''])"
  shows "\<exists>r. fst (tasks_handler w ev) =
               \<lparr>statusCode = 201, headers = cors_headers, payload = Row_body r\<rparr> \<and>
             tables (snd (tasks_handler w ev)) Tasks = tables w Tasks @ [r] \<and>
             cols r = [(''description'', sql_param (js_get v ''description'')),
                       (''assigned_to'', sql_param (js_get v ''assigned_to'')),
                       (''due_date'', sql_param (js_get v ''due_date'')),
                       (''status'', Str ''PENDING'')] \<and>
             row_id r = id_text (next_id w) \<and>
             created_at r = clock w \<and> updated_at r = created_at r"
  using assms tasks_handler_post [OF assms(1,2,3) refl refl _ refl, of w]
  by simp

theorem post_without_status_witness:
  "httpMethod (request ''POST'' ''/tasks''
     (Json (Obj [(''description'', Str ''Ship report''), (''assigned_to'', Str ''Alex''),
                 (''due_date'', Str ''2025-03-01'')]))) = ''POST'' \<and>
   \<not> nullish (Obj [(''description'', Str ''Ship report''), (''assigned_to'', Str ''Alex''),
                  (''due_date'', Str ''2025-03-01'')]) \<and>
   js_get (Obj [(''description'', Str ''Ship report''), (''assigned_to'', Str ''Alex''),
                (''due_date'', Str ''2025-03-01'')]) ''status'' = Undefined \<and>
   \<not> rejects world_up (Insert_into Tasks
        [Str ''Ship report'', Str ''Alex'', Str ''2025-03-01'', Str ''PENDING'']) \<and>
   (\<exists>r. fst (tasks_handler world_up (request ''POST'' ''/tasks''
           (Json (Obj [(''description'', Str ''Ship report''), (''assigned_to'', Str ''Alex''),
                       (''due_date'', Str ''2025-03-01'')])))) =
          \<lparr>statusCode = 201, headers = cors_headers, payload = Row_body r\<rparr> \<and>
        cols r = [(''description'', Str ''Ship report''), (''assigned_to'', Str ''Alex''),
                  (''due_date'', Str ''2025-03-01''), (''status'', Str ''PENDING'')] \<and>
        created_at r = 30 \<and> updated_at r = 30)"
proof -
  let ?v = "Obj [(''description'', Str ''Ship report''), (''assigned_to'', Str ''Alex''),
                 (''due_date'', Str ''2025-03-01'')]"
  let ?ev = "request ''POST'' ''/tasks'' (Json ?v)"
  have m: "httpMethod ?ev = ''POST''" and b: "body ?ev = Json ?v"
    by (simp_all add: request_def)
  have n: "\<not> nullish ?v" and u: "js_get ?v ''status'' = Undefined"
    by simp_all
  have g: "js_get ?v ''description'' = Str ''Ship report''" "js_get ?v ''assigned_to'' = Str ''Alex''"
    "js_get ?v ''due_date'' = Str ''2025-03-01''"
    by simp_all
  have s: "\<not> rejects world_up q" for q
    by (simp add: world_up_def)
  have c: "clock world_up = 30"
    by (simp add: world_up_def)
  have "\<exists>r. fst (tasks_handler world_up ?ev) =
               \<lparr>statusCode = 201, headers = cors_headers, payload = Row_body r\<rparr> \<and>
             tables (snd (tasks_handler world_up ?ev)) Tasks = tables world_up Tasks @ [r] \<and>
             cols r = [(''description'', sql_param (js_get ?v ''description'')),
                       (''assigned_to'', sql_param (js_get ?v ''assigned_to'')),
                       (''due_date'', sql_param (js_get ?v ''due_date'')),
                       (''status'', Str ''PENDING'')] \<and>
             row_id r = id_text (next_id world_up) \<and>
             created_at r = clock world_up \<and> updated_at r = created_at r"
    by (rule post_without_status [OF m b n u s])
  then obtain r where
    "fst (tasks_handler world_up ?ev) =
       \<lparr>statusCode = 201, headers = cors_headers, payload = Row_body r\<rparr>"
    "cols r = [(''description'', sql_param (js_get ?v ''description'')),
               (''assigned_to'', sql_param (js_get ?v ''assigned_to'')),
               (''due_date'', sql_param (js_get ?v ''due_date'')),
               (''status'', Str ''PENDING'')]"
    "created_at r = clock world_up" "updated_at r = created_at r"
    by blast
  then have "fst (tasks_handler world_up ?ev) =
       \<lparr>statusCode = 201, headers = cors_headers, payload = Row_body r\<rparr> \<and>
     cols r = [(''description'', Str ''Ship report''), (''assigned_to'', Str ''Alex''),
               (''due_date'', Str ''2025-03-01''), (''status'', Str ''PENDING'')] \<and>
     created_at r = 30 \<and> updated_at r = 30"
    by (simp only: g c sql_param.simps simp_thms)
  then show ?thesis
    using m n u s by blast
qed

section \<open>The default status\<close>

text \<open>
  C9. A POST to the tasks handler whose body parses to a value other than \<open>null\<close>
  with a falsy \<open>status\<close> (not there, \<open>null\<close>, \<open>false\<close>, \<open>0\<close> or the empty string) sends
  \<open>PENDING\<close> as the status of the insert, and the row stored and returned has that
  status when the storage carries the insert out. A PUT with a non-empty id sends the
  status of its body as it is, and the rows it updates have that status (\<open>NULL\<close> for a
  status that is not there): nothing is defaulted.
\<close>

theorem status_defaulting:
  "(httpMethod ev = ''POST'' \<and> body ev = Json v \<and> \<not> nullish v \<and>
    \<not> truthy (js_get v ''status'') \<and>
    \<not> rejects w (Insert_into Tasks
         [js_get v ''description'', js_get v ''assigned_to'', js_get v ''due_date'',
          Str ''PENDING'']) \<longrightarrow>
      queries (snd (tasks_handler w ev)) =
        queries w @ [Insert_into Tasks
          [js_get v ''description'', js_get v ''assigned_to'', js_get v ''due_date'',
           Str ''PENDING'']] \<and>
      (\<exists>r. payload (fst (tasks_handler w ev)) = Row_body r \<and>
            tables (snd (tasks_handler w ev)) Tasks = tables w Tasks @ [r] \<and>
            map_of (cols r) ''status'' = Some (Str ''PENDING''))) \<and>
   (httpMethod ev' = ''PUT'' \<and> path_id ''tasks'' (path ev') = Str i \<and> i \<noteq> [] \<and>
    body ev' = Json v' \<and> \<not> nullish v' \<longrightarrow>
      queries (snd (tasks_handler w ev')) =
        queries w @ [Update_where Tasks
          [js_get v' ''description'', js_get v' ''assigned_to'', js_get v' ''due_date'',
           js_get v' ''status''] (Str i)] \<and>
      (\<not> rejects w (Update_where Tasks
          [js_get v' ''description'', js_get v' ''assigned_to'', js_get v' ''due_date'',
           js_get v' ''status''] (Str i)) \<longrightarrow>
         (\<forall>r \<in> set (tables (snd (tasks_handler w ev')) Tasks).
            row_id r = i \<longrightarrow> map_of (cols r) ''status'' = Some (sql_param (js_get v' ''status'')))))"
proof -
  let ?qi = "Insert_into Tasks
      [js_get v ''description'', js_get v ''assigned_to'', js_get v ''due_date'', Str ''PENDING'']"
  let ?qu = "Update_where Tasks
      [js_get v' ''description'', js_get v' ''assigned_to'', js_get v' ''due_date'',
       js_get v' ''status''] (Str i)"
  let ?r = "\<lparr>row_id = id_text (next_id w),
              cols = [(''description'', sql_param (js_get v ''description'')),
                      (''assigned_to'', sql_param (js_get v ''assigned_to'')),
                      (''due_date'', sql_param (js_get v ''due_date'')),
                      (''status'', Str ''PENDING'')],
              created_at = clock w, updated_at = clock w\<rparr>"
  have post: "queries (snd (tasks_handler w ev)) = queries w @ [?qi] \<and>
      (\<exists>r. payload (fst (tasks_handler w ev)) = Row_body r \<and>
            tables (snd (tasks_handler w ev)) Tasks = tables w Tasks @ [r] \<and>
            map_of (cols r) ''status'' = Some (Str ''PENDING''))"
    if h: "httpMethod ev = ''POST''" "body ev = Json v" "\<not> nullish v"
      "\<not> truthy (js_get v ''status'')" "\<not> rejects w ?qi"
  proof -
    have "tasks_handler w ev =
        (\<lparr>statusCode = 201, headers = cors_headers, payload = Row_body ?r\<rparr>,
         w\<lparr>queries := queries w @ [?qi],
            tables := (tables w)(Tasks := tables w Tasks @ [?r]),
            next_id := Suc (next_id w)\<rparr>)"
      using h(4,5) tasks_handler_post [OF h(1,2,3) refl refl _ refl, of w] by simp
    then show ?thesis by simp
  qed
  have put1: "queries (snd (tasks_handler w ev')) = queries w @ [?qu]"
    if h: "httpMethod ev' = ''PUT''" "path_id ''tasks'' (path ev') = Str i" "i \<noteq> []"
      "body ev' = Json v'" "\<not> nullish v'"
    by (rule tasks_handler_put(1) [OF h refl])
  have put2: "\<forall>r \<in> set (tables (snd (tasks_handler w ev')) Tasks).
      row_id r = i \<longrightarrow> map_of (cols r) ''status'' = Some (sql_param (js_get v' ''status''))"
    if h: "httpMethod ev' = ''PUT''" "path_id ''tasks'' (path ev') = Str i" "i \<noteq> []"
      "body ev' = Json v'" "\<not> nullish v'" and r: "\<not> rejects w ?qu"
  proof -
    have c: "map_of [(''description'', a), (''assigned_to'', b), (''due_date'', c), (''status'', d)]
               ''status'' = Some d" for a b c d :: js
      by simp
    have d: "cols r = C"
      if "r \<in> set (map (\<lambda>x. if row_id x = i then x\<lparr>cols := C, updated_at := u\<rparr> else x) rs)"
        "row_id r = i" for r :: row and C u rs
    proof -
      from that(1) obtain x where x: "r = (if row_id x = i then x\<lparr>cols := C, updated_at := u\<rparr> else x)"
        by (auto simp only: set_map)
      show ?thesis
      proof (cases "row_id x = i")
        case True
        then show ?thesis using x by simp
      next
        case False
        then show ?thesis using x that(2) by simp
      qed
    qed
    let ?C = "[(''description'', sql_param (js_get v' ''description'')),
               (''assigned_to'', sql_param (js_get v' ''assigned_to'')),
               (''due_date'', sql_param (js_get v' ''due_date'')),
               (''status'', sql_param (js_get v' ''status''))]"
    have eq: "tables (snd (tasks_handler w ev')) Tasks =
        map (\<lambda>x. if row_id x = i then x\<lparr>cols := ?C, updated_at := clock w\<rparr> else x) (tables w Tasks)"
      by (simp only: tasks_handler_put(2) [OF h refl r] fun_upd_same)
    show ?thesis
    proof (intro ballI impI)
      fix r0 assume "r0 \<in> set (tables (snd (tasks_handler w ev')) Tasks)" and i: "row_id r0 = i"
      then have "r0 \<in> set (map (\<lambda>x. if row_id x = i then x\<lparr>cols := ?C, updated_at := clock w\<rparr> else x)
                         (tables w Tasks))"
        by (simp only: eq)
      then have "cols r0 = ?C"
        using i by (rule d)
      then show "map_of (cols r0) ''status'' = Some (sql_param (js_get v' ''status''))"
        by (simp only: c)
    qed
  qed
  show ?thesis
  proof (intro conjI impI)
    assume a: "httpMethod ev = ''POST'' \<and> body ev = Json v \<and> \<not> nullish v \<and>
      \<not> truthy (js_get v ''status'') \<and> \<not> rejects w ?qi"
    show "queries (snd (tasks_handler w ev)) = queries w @ [?qi]"
      using a post by blast
    show "\<exists>r. payload (fst (tasks_handler w ev)) = Row_body r \<and>
            tables (snd (tasks_handler w ev)) Tasks = tables w Tasks @ [r] \<and>
            map_of (cols r) ''status'' = Some (Str ''PENDING'')"
      using a post by blast
  next
    assume a: "httpMethod ev' = ''PUT'' \<and> path_id ''tasks'' (path ev') = Str i \<and> i \<noteq> [] \<and>
      body ev' = Json v' \<and> \<not> nullish v'"
    show "queries (snd (tasks_handler w ev')) = queries w @ [?qu]"
      using a put1 by blast
    assume "\<not> rejects w ?qu"
    then show "\<forall>r \<in> set (tables (snd (tasks_handler w ev')) Tasks).
      row_id r = i \<longrightarrow> map_of (cols r) ''status'' = Some (sql_param (js_get v' ''status''))"
      using a put2 by blast
  qed
qed

theorem status_defaulting_witness:
  "httpMethod (request ''POST'' ''/tasks'' (Json (Obj [(''status'', Str [])]))) = ''POST'' \<and>
   \<not> nullish (Obj [(''status'', Str [])]) \<and>
   \<not> truthy (js_get (Obj [(''status'', Str [])]) ''status'') \<and>
   httpMethod (request ''PUT'' ''/tasks/1'' (Json (Obj [(''status'', Str [])]))) = ''PUT'' \<and>
   path_id ''tasks'' (path (request ''PUT'' ''/tasks/1'' (Json (Obj [(''status'', Str [])]))))
     = Str ''1'' \<and>
   ''1'' \<noteq> [] \<and>
   queries (snd (tasks_handler world_up
       (request ''POST'' ''/tasks'' (Json (Obj [(''status'', Str [])]))))) =
     [Insert_into Tasks [Undefined, Undefined, Undefined, Str ''PENDING'']] \<and>
   queries (snd (tasks_handler world_up
       (request ''PUT'' ''/tasks/1'' (Json (Obj [(''status'', Str [])]))))) =
     [Update_where Tasks [Undefined, Undefined, Undefined, Str []] (Str ''1'')] \<and>
   \<not> (\<exists>r \<in> set (tables (snd (tasks_handler world_up
                  (request ''PUT'' ''/tasks/1'' (Json (Obj [(''status'', Str [])]))))) Tasks).
      row_id r = ''1'' \<and> map_of (cols r) ''status'' \<noteq> Some (Str []))"
proof -
  let ?v = "Obj [(''status'', Str [])]"
  let ?post = "request ''POST'' ''/tasks'' (Json ?v)"
  let ?put = "request ''PUT'' ''/tasks/1'' (Json ?v)"
  have m: "httpMethod ?post = ''POST''" "httpMethod ?put = ''PUT''"
    and b: "body ?post = Json ?v" "body ?put = Json ?v"
    by (simp_all add: request_def)
  have i: "path_id ''tasks'' (path ?put) = Str ''1''" "''1'' \<noteq> ([] :: string)"
    by (simp_all add: request_def path_id_def part_at_end_def)
  have n: "\<not> nullish ?v" "\<not> truthy (js_get ?v ''status'')"
    by simp_all
  have g: "js_get ?v ''description'' = Undefined" "js_get ?v ''assigned_to'' = Undefined"
    "js_get ?v ''due_date'' = Undefined" "js_get ?v ''status'' = Str []"
    by simp_all
  have s: "\<not> rejects world_up q" for q
    by (simp add: world_up_def)
  have e: "queries world_up = []"
    by (simp add: world_up_def)
  show ?thesis
    using status_defaulting [of ?post ?v world_up ?put "''1''" ?v] m b i n s
    by (simp only: g e sql_param.simps simp_thms append_Nil) blast
qed

section \<open>Failures\<close>

lemma pool_query_logged:
  assumes "pool_query w q = (res, w')"
  shows "queries w' = queries w @ [q] \<and> (rejects w q \<longrightarrow> res = Inl StorageError)"
  using assms queries_pool_query [of w q] by (auto simp: pool_query_rejected)

lemma tasks_try_rejected:
  assumes "queries (snd (tasks_try w ev)) = queries w @ [q]" and "rejects w q"
  shows "fst (tasks_try w ev) = Inl StorageError"
  using assms
  by (auto simp: tasks_try_def Let_def split: if_splits sum.splits prod.splits list.splits
      dest!: pool_query_logged)

lemma tenders_try_rejected:
  assumes "queries (snd (tenders_try w ev)) = queries w @ [q]" and "rejects w q"
  shows "fst (tenders_try w ev) = Inl StorageError"
  using assms
  by (auto simp: tenders_try_def Let_def split: if_splits sum.splits prod.splits list.splits
      dest!: pool_query_logged)

lemma tasks_try_unparsed:
  assumes "httpMethod ev = ''POST'' \<or> (httpMethod ev = ''PUT'' \<and> truthy (path_id ''tasks'' (path ev)))"
    and "body ev = Malformed \<or> (\<exists>v. body ev = Json v \<and> nullish v)"
  shows "\<exists>e. tasks_try w ev = (Inl e, w)"
  using assms by (auto simp: tasks_try_def Let_def)

lemma tenders_try_unparsed:
  assumes "httpMethod ev = ''POST'' \<or> (httpMethod ev = ''PUT'' \<and> truthy (path_id ''tenders'' (path ev)))"
    and "body ev = Malformed \<or> (\<exists>v. body ev = Json v \<and> nullish v)"
  shows "\<exists>e. tenders_try w ev = (Inl e, w)"
  using assms by (auto simp: tenders_try_def Let_def)

lemma tenders_handler_queries:
  "queries (snd (tenders_handler w ev)) \<noteq> queries w \<Longrightarrow>
   httpMethod ev \<noteq> ''OPTIONS'' \<and> (pool w \<or> (\<not> url_missing w \<and> \<not> Pool_throws w))"
  by (auto simp: tenders_handler_def Let_def split: if_splits)

text \<open>
  C8. Whatever raises inside the \<open>try\<close> block is caught and answered with the one
  response 500 \<open>Internal server error\<close>. A POST, or a PUT with an id, whose body is not
  JSON (or is \<open>null\<close>, whose fields cannot be read) gets it, with the process left as
  it was; so does every request whose statement the storage refuses; and in general so
  does every request, other than the preflight, on which the block raises. For the
  tenders handler this is so once it has a pool or can make one. The handlers are total:
  each request gets a response.
\<close>

theorem failures_are_caught:
  "((httpMethod ev = ''POST'' \<or> (httpMethod ev = ''PUT'' \<and> truthy (path_id ''tasks'' (path ev)))) \<and>
    (body ev = Malformed \<or> (\<exists>v. body ev = Json v \<and> nullish v)) \<longrightarrow>
      tasks_handler w ev =
        (\<lparr>statusCode = 500, headers = cors_headers,
          payload = Error_body ''Internal server error''\<rparr>, w)) \<and>
   ((httpMethod ev = ''POST'' \<or> (httpMethod ev = ''PUT'' \<and> truthy (path_id ''tenders'' (path ev)))) \<and>
    (body ev = Malformed \<or> (\<exists>v. body ev = Json v \<and> nullish v)) \<and>
    (pool w \<or> (\<not> url_missing w \<and> \<not> Pool_throws w)) \<longrightarrow>
      tenders_handler w ev =
        (\<lparr>statusCode = 500, headers = cors_headers,
          payload = Error_body ''Internal server error''\<rparr>, w\<lparr>pool := True\<rparr>)) \<and>
   (queries (snd (tasks_handler w ev')) = queries w @ [q] \<and> rejects w q \<longrightarrow>
      fst (tasks_handler w ev') =
        \<lparr>statusCode = 500, headers = cors_headers,
          payload = Error_body ''Internal server error''\<rparr>) \<and>
   (queries (snd (tenders_handler w ev')) = queries w @ [q'] \<and> rejects w q' \<longrightarrow>
      fst (tenders_handler w ev') =
        \<lparr>statusCode = 500, headers = cors_headers,
          payload = Error_body ''Internal server error''\<rparr>) \<and>
   (httpMethod ev' \<noteq> ''OPTIONS'' \<and> fst (tasks_try w ev') = Inl e \<longrightarrow>
      fst (tasks_handler w ev') =
        \<lparr>statusCode = 500, headers = cors_headers,
          payload = Error_body ''Internal server error''\<rparr>) \<and>
   (httpMethod ev' \<noteq> ''OPTIONS'' \<and> (pool w \<or> (\<not> url_missing w \<and> \<not> Pool_throws w)) \<and>
    fst (tenders_try (w\<lparr>pool := True\<rparr>) ev') = Inl e' \<longrightarrow>
      fst (tenders_handler w ev') =
        \<lparr>statusCode = 500, headers = cors_headers,
          payload = Error_body ''Internal server error''\<rparr>)"
proof -
  let ?err = "\<lparr>statusCode = 500, headers = cors_headers,
                payload = Error_body ''Internal server error''\<rparr>"
  have parse_tasks: "tasks_handler w ev = (?err, w)"
    if m: "httpMethod ev = ''POST'' \<or> (httpMethod ev = ''PUT'' \<and> truthy (path_id ''tasks'' (path ev)))"
      and b: "body ev = Malformed \<or> (\<exists>v. body ev = Json v \<and> nullish v)"
  proof -
    obtain e where "tasks_try w ev = (Inl e, w)"
      using tasks_try_unparsed [OF m b] by blast
    moreover have "httpMethod ev \<noteq> ''OPTIONS''"
      using m by auto
    ultimately show ?thesis
      by (simp add: tasks_handler_def)
  qed
  have parse_tenders: "tenders_handler w ev = (?err, w\<lparr>pool := True\<rparr>)"
    if m: "httpMethod ev = ''POST'' \<or> (httpMethod ev = ''PUT'' \<and> truthy (path_id ''tenders'' (path ev)))"
      and b: "body ev = Malformed \<or> (\<exists>v. body ev = Json v \<and> nullish v)"
      and c: "pool w \<or> (\<not> url_missing w \<and> \<not> Pool_throws w)"
  proof -
    obtain e where "tenders_try (w\<lparr>pool := True\<rparr>) ev = (Inl e, w\<lparr>pool := True\<rparr>)"
      using tenders_try_unparsed [OF m b] by blast
    moreover have "httpMethod ev \<noteq> ''OPTIONS''"
      using m by auto
    ultimately show ?thesis
      using tenders_handler_try [OF _ c, of ev] by (simp add: prod_eq_iff)
  qed
  have store_tasks: "fst (tasks_handler w ev') = ?err"
    if l: "queries (snd (tasks_handler w ev')) = queries w @ [q]" and r: "rejects w q"
  proof -
    have m: "httpMethod ev' \<noteq> ''OPTIONS''"
      using l by (auto simp: tasks_handler_def)
    have "queries (snd (tasks_try w ev')) = queries w @ [q]"
      using l tasks_handler_try [OF m, of w] by simp
    then have "fst (tasks_try w ev') = Inl StorageError"
      using r by (rule tasks_try_rejected)
    then show ?thesis
      using tasks_handler_try [OF m, of w] by simp
  qed
  have store_tenders: "fst (tenders_handler w ev') = ?err"
    if l: "queries (snd (tenders_handler w ev')) = queries w @ [q']" and r: "rejects w q'"
  proof -
    have "queries (snd (tenders_handler w ev')) \<noteq> queries w"
      using l by simp
    then have m: "httpMethod ev' \<noteq> ''OPTIONS''"
      and c: "pool w \<or> (\<not> url_missing w \<and> \<not> Pool_throws w)"
      using tenders_handler_queries [of w ev'] by blast+
    have "queries (snd (tenders_try (w\<lparr>pool := True\<rparr>) ev')) = queries (w\<lparr>pool := True\<rparr>) @ [q']"
      using l tenders_handler_try [OF m c] by simp
    moreover have "rejects (w\<lparr>pool := True\<rparr>) q'"
      using r by simp
    ultimately have "fst (tenders_try (w\<lparr>pool := True\<rparr>) ev') = Inl StorageError"
      by (rule tenders_try_rejected)
    then show ?thesis
      using tenders_handler_try [OF m c] by simp
  qed
  have catch_tasks: "fst (tasks_handler w ev') = ?err"
    if "httpMethod ev' \<noteq> ''OPTIONS''" "fst (tasks_try w ev') = Inl e"
    using that tasks_handler_try [of ev' w] by simp
  have catch_tenders: "fst (tenders_handler w ev') = ?err"
    if "httpMethod ev' \<noteq> ''OPTIONS''" "pool w \<or> (\<not> url_missing w \<and> \<not> Pool_throws w)"
      "fst (tenders_try (w\<lparr>pool := True\<rparr>) ev') = Inl e'"
    using that tenders_handler_try [of ev' w] by simp
  show ?thesis
    using parse_tasks parse_tenders store_tasks store_tenders catch_tasks catch_tenders
    by blast
qed

theorem failures_are_caught_witness:
  "httpMethod (request ''POST'' ''/tasks'' Malformed) = ''POST'' \<and>
   body (request ''POST'' ''/tasks'' Malformed) = Malformed \<and>
   (pool world_down \<or> (\<not> url_missing world_down \<and> \<not> Pool_throws world_down)) \<and>
   queries (snd (tasks_handler world_down (request ''GET'' ''/tasks'' (Json Null)))) =
     queries world_down @ [Select_all Tasks] \<and>
   queries (snd (tenders_handler world_down (request ''GET'' ''/tasks'' (Json Null)))) =
     queries world_down @ [Select_all Tenders] \<and>
   rejects world_down (Select_all Tasks) \<and> rejects world_down (Select_all Tenders) \<and>
   httpMethod (request ''GET'' ''/tasks'' (Json Null)) \<noteq> ''OPTIONS'' \<and>
   fst (tasks_try world_down (request ''GET'' ''/tasks'' (Json Null))) = Inl StorageError \<and>
   fst (tenders_try (world_down\<lparr>pool := True\<rparr>) (request ''GET'' ''/tasks'' (Json Null))) =
     Inl StorageError \<and>
   tasks_handler world_down (request ''POST'' ''/tasks'' Malformed) =
     (\<lparr>statusCode = 500, headers = cors_headers,
       payload = Error_body ''Internal server error''\<rparr>, world_down) \<and>
   tenders_handler world_down (request ''POST'' ''/tasks'' Malformed) =
     (\<lparr>statusCode = 500, headers = cors_headers,
       payload = Error_body ''Internal server error''\<rparr>, world_down\<lparr>pool := True\<rparr>) \<and>
   fst (tasks_handler world_down (request ''GET'' ''/tasks'' (Json Null))) =
     \<lparr>statusCode = 500, headers = cors_headers,
       payload = Error_body ''Internal server error''\<rparr> \<and>
   fst (tenders_handler world_down (request ''GET'' ''/tasks'' (Json Null))) =
     \<lparr>statusCode = 500, headers = cors_headers,
       payload = Error_body ''Internal server error''\<rparr>"
proof -
  let ?post = "request ''POST'' ''/tasks'' Malformed"
  let ?get = "request ''GET'' ''/tasks'' (Json Null)"
  have m: "httpMethod ?post = ''POST''" "body ?post = Malformed"
    "httpMethod ?get \<noteq> ''OPTIONS''"
    by (simp_all add: request_def)
  have p: "pool world_down \<or> (\<not> url_missing world_down \<and> \<not> Pool_throws world_down)"
    by (simp add: world_down_def world_up_def url_missing_def)
  have r: "rejects world_down q" "rejects (world_down\<lparr>pool := True\<rparr>) q" for q
    by (simp_all add: world_down_def)
  have g: "httpMethod ?get = ''GET''"
    by (simp add: request_def)
  have t1: "tasks_try w ?get = (Inl StorageError, w\<lparr>queries := queries w @ [Select_all Tasks]\<rparr>)"
    if "rejects w (Select_all Tasks)" for w
    using that g by (simp add: tasks_try_def pool_query_rejected)
  have t2: "tenders_try w ?get =
      (Inl StorageError, w\<lparr>queries := queries w @ [Select_all Tenders]\<rparr>)"
    if "rejects w (Select_all Tenders)" for w
    using that g by (simp add: tenders_try_def pool_query_rejected)
  have e: "fst (tasks_try world_down ?get) = Inl StorageError"
    "fst (tenders_try (world_down\<lparr>pool := True\<rparr>) ?get) = Inl StorageError"
    by (simp_all add: t1 t2 r)
  have l1: "queries (snd (tasks_handler world_down ?get)) = queries world_down @ [Select_all Tasks]"
    using tasks_handler_try [OF m(3), of world_down]
    by (simp add: t1 r)
  have l2: "queries (snd (tenders_handler world_down ?get)) =
      queries world_down @ [Select_all Tenders]"
    using tenders_handler_try [OF m(3) p]
    by (simp add: t2 r)
  show ?thesis
    using failures_are_caught [of ?post world_down ?get "Select_all Tasks" "Select_all Tenders"
        StorageError StorageError] m p r e l1 l2
    by blast
qed

section \<open>The record transformer\<close>

text \<open>
  C2, as the code has it. The transformers and the request builders are functions,
  defined on every record (every value but \<open>null\<close> and \<open>undefined\<close>). A fetched record
  put through its transformer and then through the builder of the update request gives
  back the stored value of every client-writable column; a component record put through
  the builder and then the transformer gives back every client-writable field. The
  transformer carries over the id, the four columns and \<open>created_at\<close>; it has no entry
  for \<open>updated_at\<close>.
\<close>

theorem record_round_trip:
  assumes "\<not> nullish dbTender" and "\<not> nullish dbTask"
  shows "(\<exists>tender b.
            transformTender dbTender = Inr tender \<and> tenderAPI_body tender = Inr b \<and>
            (\<forall>c \<in> set (columns Tenders). js_get b c = js_get dbTender c) \<and>
            js_get tender ''id'' = js_get dbTender ''id'' \<and>
            js_get tender ''tenderNumber'' = js_get dbTender ''tender_number'' \<and>
            js_get tender ''description'' = js_get dbTender ''description'' \<and>
            js_get tender ''closingDate'' = js_get dbTender ''closing_date'' \<and>
            js_get tender ''siteVisits'' = js_get dbTender ''site_visits'' \<and>
            js_get tender ''createdAt'' = js_get dbTender ''created_at'') \<and>
         (\<exists>task b.
            transformTask dbTask = Inr task \<and> taskAPI_body task = Inr b \<and>
            (\<forall>c \<in> set (columns Tasks). js_get b c = js_get dbTask c) \<and>
            js_get task ''id'' = js_get dbTask ''id'' \<and>
            js_get task ''description'' = js_get dbTask ''description'' \<and>
            js_get task ''assignedTo'' = js_get dbTask ''assigned_to'' \<and>
            js_get task ''dueDate'' = js_get dbTask ''due_date'' \<and>
            js_get task ''status'' = js_get dbTask ''status'' \<and>
            js_get task ''createdAt'' = js_get dbTask ''created_at'') \<and>
         (\<exists>b tender.
            tenderAPI_body dbTender = Inr b \<and> transformTender b = Inr tender \<and>
            (\<forall>k \<in> set (client_fields Tenders). js_get tender k = js_get dbTender k)) \<and>
         (\<exists>b task.
            taskAPI_body dbTask = Inr b \<and> transformTask b = Inr task \<and>
            (\<forall>k \<in> set (client_fields Tasks). js_get task k = js_get dbTask k))"
proof -
  have 1: "\<exists>tender b.
            transformTender dbTender = Inr tender \<and> tenderAPI_body tender = Inr b \<and>
            (\<forall>c \<in> set (columns Tenders). js_get b c = js_get dbTender c) \<and>
            js_get tender ''id'' = js_get dbTender ''id'' \<and>
            js_get tender ''tenderNumber'' = js_get dbTender ''tender_number'' \<and>
            js_get tender ''description'' = js_get dbTender ''description'' \<and>
            js_get tender ''closingDate'' = js_get dbTender ''closing_date'' \<and>
            js_get tender ''siteVisits'' = js_get dbTender ''site_visits'' \<and>
            js_get tender ''createdAt'' = js_get dbTender ''created_at''"
    using assms(1) by (simp add: transformTender_def tenderAPI_body_def columns_def)
  have 2: "\<exists>task b.
            transformTask dbTask = Inr task \<and> taskAPI_body task = Inr b \<and>
            (\<forall>c \<in> set (columns Tasks). js_get b c = js_get dbTask c) \<and>
            js_get task ''id'' = js_get dbTask ''id'' \<and>
            js_get task ''description'' = js_get dbTask ''description'' \<and>
            js_get task ''assignedTo'' = js_get dbTask ''assigned_to'' \<and>
            js_get task ''dueDate'' = js_get dbTask ''due_date'' \<and>
            js_get task ''status'' = js_get dbTask ''status'' \<and>
            js_get task ''createdAt'' = js_get dbTask ''created_at''"
    using assms(2) by (simp add: transformTask_def taskAPI_body_def columns_def)
  have 3: "\<exists>b tender.
            tenderAPI_body dbTender = Inr b \<and> transformTender b = Inr tender \<and>
            (\<forall>k \<in> set (client_fields Tenders). js_get tender k = js_get dbTender k)"
    using assms(1) by (simp add: transformTender_def tenderAPI_body_def client_fields_def)
  have 4: "\<exists>b task.
            taskAPI_body dbTask = Inr b \<and> transformTask b = Inr task \<and>
            (\<forall>k \<in> set (client_fields Tasks). js_get task k = js_get dbTask k)"
    using assms(2) by (simp add: transformTask_def taskAPI_body_def client_fields_def)
  show ?thesis
    using 1 2 3 4 by (intro conjI)
qed

theorem record_round_trip_witness:
  "\<not> nullish tender_json \<and> \<not> nullish task_json \<and>
   ''tender_number'' \<in> set (columns Tenders) \<and> ''status'' \<in> set (columns Tasks) \<and>
   (\<exists>tender b. transformTender tender_json = Inr tender \<and> tenderAPI_body tender = Inr b \<and>
      js_get b ''tender_number'' = Str ''T-1'') \<and>
   (\<exists>task b. transformTask task_json = Inr task \<and> taskAPI_body task = Inr b \<and>
      js_get b ''status'' = Str ''PENDING'')"
proof -
  have n: "\<not> nullish tender_json" "\<not> nullish task_json"
    by (simp_all add: tender_json_def task_json_def)
  have c: "''tender_number'' \<in> set (columns Tenders)" "''status'' \<in> set (columns Tasks)"
    by (simp_all add: columns_def)
  have g: "js_get tender_json ''tender_number'' = Str ''T-1''"
    "js_get task_json ''status'' = Str ''PENDING''"
    by (simp_all add: tender_json_def task_json_def)
  from record_round_trip [OF n] obtain tender b task b' where
    "transformTender tender_json = Inr tender" "tenderAPI_body tender = Inr b"
    "\<forall>c \<in> set (columns Tenders). js_get b c = js_get tender_json c"
    "transformTask task_json = Inr task" "taskAPI_body task = Inr b'"
    "\<forall>c \<in> set (columns Tasks). js_get b' c = js_get task_json c"
    by blast
  then show ?thesis
    using n c g by metis
qed

text \<open>
  C2 as stated fails in its last part: \<open>updated_at\<close> is a field of a stored task that
  the transformer does not map. Two fetched records that differ in \<open>updated_at\<close> alone
  are turned into the same record.
\<close>

theorem record_round_trip_counterexample:
  "\<not> nullish task_json \<and> \<not> nullish task_json_later \<and>
   ''updated_at'' \<in> set (known_fields Tasks) \<and>
   js_get task_json ''updated_at'' \<noteq> js_get task_json_later ''updated_at'' \<and>
   transformTask task_json = transformTask task_json_later"
  by (simp add: task_json_def task_json_later_def transformTask_def known_fields_def)

section \<open>The connection string\<close>

text \<open>
  C3 at a failing input. With no \<open>DATABASE_URL\<close> in the environment, a GET to the tasks
  handler does not answer with a configuration error: it hands its SELECT to the pool
  made when the module was loaded, and answers 200 with the rows when the storage
  answers and 500 \<open>Internal server error\<close> when it does not.
\<close>

theorem tasks_handler_without_url:
  "DATABASE_URL world_unset = None \<and>
   tasks_handler world_unset (request ''GET'' ''/tasks'' (Json Null)) =
     (\<lparr>statusCode = 200, headers = cors_headers, payload = Rows_body [task_b, task_a]\<rparr>,
      world_unset\<lparr>queries := [Select_all Tasks]\<rparr>) \<and>
   tasks_handler (world_unset\<lparr>rejects := (\<lambda>q. True)\<rparr>) (request ''GET'' ''/tasks'' (Json Null)) =
     (\<lparr>statusCode = 500, headers = cors_headers,
       payload = Error_body ''Internal server error''\<rparr>,
      world_unset\<lparr>rejects := (\<lambda>q. True), queries := [Select_all Tasks]\<rparr>)"
proof -
  have c: "created_at task_a = 10" "created_at task_b = 20"
    by (simp_all add: task_a_def task_b_def)
  show ?thesis
    by (simp add: tasks_handler_def tasks_try_def pool_query_def request_def world_unset_def
        world_up_def c Let_def)
qed

end
